theory Spec2Isabelle
  imports Complex_Main "HOL-Library.Product_Lexorder"
begin

unbundle bit_operations_syntax

section \<open>Preliminaries: Python values, exceptions and indexing\<close>

text \<open>
  The development embeds the core of brawn (alphabet.py, distance.py, tree.py,
  positions.py, path.py, align.py, alignment.py).  Python floats are modelled as IEEE 754
  double-precision numbers with rounding to nearest, ties to even (the section on Python
  floats), Python integers as \<^typ>\<open>int\<close> or \<^typ>\<open>nat\<close>, strings as \<^typ>\<open>string\<close>, and
  every \<^verbatim>\<open>raise\<close> or failed \<^verbatim>\<open>assert\<close> as the left injection of a sum type.
\<close>

datatype error =
    ValueError
  | TypeError
  | KeyError
  | IndexError
  | AttributeError
  | AssertionError
  | ZeroDivisionError
  | OverflowError
  | RecursionError
  | NotImplementedError
  | InvalidCacheFormatError
  | MismatchedCacheVersionError
  | NonTermination
  | Unmodelled

text \<open>\<^const>\<open>NonTermination\<close> and \<^const>\<open>Unmodelled\<close> are not Python exceptions: the first
  marks a call whose loop never returns, the second an execution that the model does not
  follow (sorting a list of floats that holds a NaN).\<close>

text \<open>Sequencing of computations that may raise.\<close>

definition bind :: "error + 'a \<Rightarrow> ('a \<Rightarrow> error + 'b) \<Rightarrow> error + 'b" where
  "bind m f = (case m of Inl e \<Rightarrow> Inl e | Inr x \<Rightarrow> f x)"

fun fold_err :: "('a \<Rightarrow> 's \<Rightarrow> error + 's) \<Rightarrow> 'a list \<Rightarrow> 's \<Rightarrow> error + 's" where
  "fold_err f [] s = Inr s"
| "fold_err f (x # xs) s = (case f x s of Inl e \<Rightarrow> Inl e | Inr s' \<Rightarrow> fold_err f xs s')"

fun map_err :: "('a \<Rightarrow> error + 'b) \<Rightarrow> 'a list \<Rightarrow> error + 'b list" where
  "map_err f [] = Inr []"
| "map_err f (x # xs) =
     (case f x of Inl e \<Rightarrow> Inl e
      | Inr y \<Rightarrow> (case map_err f xs of Inl e \<Rightarrow> Inl e | Inr ys \<Rightarrow> Inr (y # ys)))"

text \<open>Python list indexing: an index \<open>i\<close> with \<open>- len \<le> i < 0\<close> counts from the
  end, and anything outside \<open>- len \<le> i < len\<close> raises IndexError.\<close>

definition norm_index :: "nat \<Rightarrow> int \<Rightarrow> nat option" where
  "norm_index len i =
     (if 0 \<le> i \<and> i < int len then Some (nat i)
      else if i < 0 \<and> - int len \<le> i then Some (nat (int len + i))
      else None)"

definition py_index :: "'a list \<Rightarrow> int \<Rightarrow> error + 'a" where
  "py_index xs i = (case norm_index (length xs) i of None \<Rightarrow> Inl IndexError | Some k \<Rightarrow> Inr (xs ! k))"

definition py_set :: "'a list \<Rightarrow> int \<Rightarrow> 'a \<Rightarrow> error + 'a list" where
  "py_set xs i v =
     (case norm_index (length xs) i of None \<Rightarrow> Inl IndexError | Some k \<Rightarrow> Inr (xs[k := v]))"

text \<open>The substring test \<^verbatim>\<open>sub in s\<close> of Python strings.\<close>

fun starts_with :: "string \<Rightarrow> string \<Rightarrow> bool" where
  "starts_with [] s = True"
| "starts_with (a # as) [] = False"
| "starts_with (a # as) (b # bs) = (a = b \<and> starts_with as bs)"

fun py_in :: "string \<Rightarrow> string \<Rightarrow> bool" where
  "py_in sub [] = (sub = [])"
| "py_in sub (b # bs) = (starts_with sub (b # bs) \<or> py_in sub bs)"

section \<open>Python floats\<close>

text \<open>
  A Python float is an IEEE 754 double: a finite number \<open>m \<cdot> 2\<^sup>e\<close> with \<open>\<bar>m\<bar> < 2\<^sup>5\<^sup>3\<close> and
  \<open>-1074 \<le> e \<le> 971\<close>, an infinity, or a NaN.  A finite double is given by the real number
  that is its value, so the two zeros are one value; they compare equal in Python, and
  no operation of the program tells them apart (a division by either raises
  ZeroDivisionError).
\<close>

datatype pyfloat = Finite real | PosInf | NegInf | NaN

text \<open>The number of binary digits of a natural number, and from it \<open>\<lfloor>log\<^sub>2 x\<rfloor>\<close> for
  \<open>x > 0\<close>.\<close>

fun bit_len :: "nat \<Rightarrow> nat" where
  "bit_len n = (if n = 0 then 0 else Suc (bit_len (n div 2)))"

declare bit_len.simps [simp del]

definition ilog2 :: "real \<Rightarrow> int" where
  "ilog2 x = (if 1 \<le> x then int (bit_len (nat \<lfloor>x\<rfloor>)) - 1
              else - int (bit_len (nat (\<lceil>1 / x\<rceil> - 1))))"

definition pow2 :: "int \<Rightarrow> real" where
  "pow2 e = (if 0 \<le> e then 2 ^ nat e else 1 / 2 ^ nat (- e))"

text \<open>Rounding to the nearest integer, ties to the even one; \<open>m\<close> is \<open>\<lfloor>y\<rfloor>\<close>.\<close>

definition round_at :: "real \<Rightarrow> int \<Rightarrow> int" where
  "round_at y m =
     (if y - of_int m < 1 / 2 then m
      else if 1 / 2 < y - of_int m then m + 1
      else if even m then m else m + 1)"

definition round_even :: "real \<Rightarrow> int" where
  "round_even y = round_at y \<lfloor>y\<rfloor>"

text \<open>
  \<open>fl x\<close> is the double nearest to the real number \<open>x\<close>: the exponent \<open>e\<close> of the last
  place is \<open>\<lfloor>log\<^sub>2 \<bar>x\<bar>\<rfloor> - 52\<close>, or \<open>-1074\<close> in the subnormal range; the quotient
  \<open>\<bar>x\<bar> / 2\<^sup>e\<close> is rounded to an integer \<open>m\<close>; a result of \<open>2\<^sup>1\<^sup>0\<^sup>2\<^sup>4\<close> or more is
  an infinity.
\<close>

definition fl_pack :: "real \<Rightarrow> int \<Rightarrow> int \<Rightarrow> pyfloat" where
  "fl_pack x e m =
     (if 971 < e \<or> (e = 971 \<and> m = 9007199254740992) then (if 0 < x then PosInf else NegInf)
      else Finite (if 0 < x then of_int m * pow2 e else - (of_int m * pow2 e)))"

definition fl_scaled :: "real \<Rightarrow> int \<Rightarrow> pyfloat" where
  "fl_scaled x e = fl_pack x e (round_even (\<bar>x\<bar> / pow2 e))"

definition fl :: "real \<Rightarrow> pyfloat" where
  "fl x = (if x = 0 then Finite 0 else fl_scaled x (max (ilog2 \<bar>x\<bar> - 52) (- 1074)))"

text \<open>The arithmetic of floats: the exact result is rounded; the infinities and NaN
  follow IEEE 754.\<close>

fun fneg :: "pyfloat \<Rightarrow> pyfloat" where
  "fneg (Finite x) = Finite (- x)"
| "fneg PosInf = NegInf"
| "fneg NegInf = PosInf"
| "fneg NaN = NaN"

fun fadd :: "pyfloat \<Rightarrow> pyfloat \<Rightarrow> pyfloat" where
  "fadd (Finite x) (Finite y) = fl (x + y)"
| "fadd NaN b = NaN"
| "fadd a NaN = NaN"
| "fadd PosInf NegInf = NaN"
| "fadd NegInf PosInf = NaN"
| "fadd PosInf b = PosInf"
| "fadd NegInf b = NegInf"
| "fadd a PosInf = PosInf"
| "fadd a NegInf = NegInf"

definition fsub :: "pyfloat \<Rightarrow> pyfloat \<Rightarrow> pyfloat" where
  "fsub a b = fadd a (fneg b)"

fun fmul :: "pyfloat \<Rightarrow> pyfloat \<Rightarrow> pyfloat" where
  "fmul (Finite x) (Finite y) = fl (x * y)"
| "fmul NaN b = NaN"
| "fmul a NaN = NaN"
| "fmul (Finite x) b = (if x = 0 then NaN else if (0 < x) = (b = PosInf) then PosInf else NegInf)"
| "fmul a (Finite y) = (if y = 0 then NaN else if (0 < y) = (a = PosInf) then PosInf else NegInf)"
| "fmul a b = (if a = b then PosInf else NegInf)"

text \<open>The quotient by a divisor that is not zero, and the division of Python, which
  raises ZeroDivisionError for a divisor that is zero.\<close>

fun fquot :: "pyfloat \<Rightarrow> pyfloat \<Rightarrow> pyfloat" where
  "fquot (Finite x) (Finite y) = fl (x / y)"
| "fquot NaN b = NaN"
| "fquot a NaN = NaN"
| "fquot (Finite x) b = Finite 0"
| "fquot a (Finite y) = (if (0 < y) = (a = PosInf) then PosInf else NegInf)"
| "fquot a b = NaN"

definition fdiv :: "pyfloat \<Rightarrow> pyfloat \<Rightarrow> error + pyfloat" where
  "fdiv a b = (if b = Finite 0 then Inl ZeroDivisionError else Inr (fquot a b))"

text \<open>The comparisons: every comparison with a NaN is false, except \<^verbatim>\<open>!=\<close>.\<close>

fun flt :: "pyfloat \<Rightarrow> pyfloat \<Rightarrow> bool" where
  "flt (Finite x) (Finite y) = (x < y)"
| "flt NaN b = False"
| "flt a NaN = False"
| "flt NegInf b = (b \<noteq> NegInf)"
| "flt a PosInf = (a \<noteq> PosInf)"
| "flt a b = False"

definition feq :: "pyfloat \<Rightarrow> pyfloat \<Rightarrow> bool" where
  "feq a b = (a \<noteq> NaN \<and> a = b)"

definition fne :: "pyfloat \<Rightarrow> pyfloat \<Rightarrow> bool" where
  "fne a b = (\<not> feq a b)"

definition fle :: "pyfloat \<Rightarrow> pyfloat \<Rightarrow> bool" where
  "fle a b = (flt a b \<or> feq a b)"

definition fgt :: "pyfloat \<Rightarrow> pyfloat \<Rightarrow> bool" where
  "fgt a b = flt b a"

definition fge :: "pyfloat \<Rightarrow> pyfloat \<Rightarrow> bool" where
  "fge a b = fle b a"

text \<open>\<^verbatim>\<open>min(a, b)\<close> of two floats is \<open>a\<close> unless \<open>b < a\<close>.\<close>

definition fmin :: "pyfloat \<Rightarrow> pyfloat \<Rightarrow> pyfloat" where
  "fmin a b = (if flt b a then b else a)"

text \<open>The conversion of an integer, which is rounded like every other number and which
  raises OverflowError beyond the range of the doubles; and \<^verbatim>\<open>math.floor\<close>.\<close>

definition float_of_int :: "int \<Rightarrow> error + pyfloat" where
  "float_of_int i = (case fl (of_int i) of Finite v \<Rightarrow> Inr (Finite v) | _ \<Rightarrow> Inl OverflowError)"

definition py_floor :: "pyfloat \<Rightarrow> error + int" where
  "py_floor a = (case a of Finite v \<Rightarrow> Inr \<lfloor>v\<rfloor> | NaN \<Rightarrow> Inl ValueError | _ \<Rightarrow> Inl OverflowError)"

text \<open>
  Three operations are library functions whose rounding the language does not fix:
  \<^verbatim>\<open>math.log\<close> and \<^verbatim>\<open>**\<close> call the C library, and the builtin \<^verbatim>\<open>sum\<close> adds from left
  to right up to Python 3.11 and with a compensated algorithm since Python 3.12.  They
  are parameters of the model: \<open>math_log\<close> is the value of \<^verbatim>\<open>math.log\<close> at a positive
  finite double, \<open>float_pow x y\<close> the result of \<^verbatim>\<open>x ** y\<close> for two finite doubles (it
  raises OverflowError when the result is out of range), \<open>float_sum\<close> the result of
  \<^verbatim>\<open>sum\<close> on a list of floats.  The theorems state what they assume of them.
\<close>

record platform =
  math_log :: "real \<Rightarrow> pyfloat"
  float_pow :: "real \<Rightarrow> real \<Rightarrow> error + pyfloat"
  float_sum :: "pyfloat list \<Rightarrow> pyfloat"

text \<open>\<^verbatim>\<open>math.log(x)\<close> raises ValueError outside its domain; \<^verbatim>\<open>x ** 2\<close>.\<close>

definition py_log :: "platform \<Rightarrow> pyfloat \<Rightarrow> error + pyfloat" where
  "py_log pf a =
     (case a of
        Finite v \<Rightarrow> if v \<le> 0 then Inl ValueError else Inr (math_log pf v)
      | PosInf \<Rightarrow> Inr PosInf
      | NegInf \<Rightarrow> Inl ValueError
      | NaN \<Rightarrow> Inr NaN)"

definition py_square :: "platform \<Rightarrow> pyfloat \<Rightarrow> error + pyfloat" where
  "py_square pf a =
     (case a of
        Finite v \<Rightarrow> float_pow pf v 2
      | NaN \<Rightarrow> Inr NaN
      | _ \<Rightarrow> Inr PosInf)"

section \<open>alphabet.py\<close>

datatype Alphabet = AMINO | DNA | RNA

text \<open>\<^verbatim>\<open>AMINO_INDICES\<close>: the enumeration of the keys of \<^verbatim>\<open>RESIDUE_GROUP\<close>
  (the key \<^verbatim>\<open>None\<close> has index 23), then \<^verbatim>\<open>chr(0)\<close> and \<^verbatim>\<open>"?"\<close>.\<close>

definition AMINO_INDICES :: "(char \<times> int) list" where
  "AMINO_INDICES =
     zip ''ACDEFGHIKLMNPQRSTVWYBZX'' (map int [0..<23])
       @ [(CHR 0x00, 25), (CHR ''?'', 26)]"

definition DNA_INDICES :: "(char \<times> int) list" where
  "DNA_INDICES = zip ''GCAT'' (map int [0..<4])"

definition get_size :: "Alphabet \<Rightarrow> nat" where
  "get_size a = (if a = AMINO then 20 else 4)"

definition is_gap_char :: "string \<Rightarrow> bool" where
  "is_gap_char char = py_in char ''-.''"

text \<open>The argument of \<^verbatim>\<open>is_wildcard\<close> and \<^verbatim>\<open>is_residue\<close> is a Python string or
  \<^verbatim>\<open>None\<close>.\<close>

definition is_wildcard :: "string option \<Rightarrow> Alphabet \<Rightarrow> error + bool" where
  "is_wildcard char alphabet =
     (case char of
        None \<Rightarrow> Inr False
      | Some s \<Rightarrow>
          if alphabet = AMINO then Inr (py_in s ''BXZ'')
          else if alphabet = DNA then Inr (\<not> py_in s ''GATC'')
          else Inl NotImplementedError)"

definition is_residue :: "string option \<Rightarrow> Alphabet \<Rightarrow> error + bool" where
  "is_residue char alphabet =
     (if char = None \<or> char = Some [] then Inr False
      else if alphabet = AMINO then Inr (py_in (the char) ''ACDEFGHIKLMNPQRSTVWY'')
      else if alphabet = DNA then Inr (py_in (the char) ''GATC'')
      else Inl NotImplementedError)"

section \<open>alignment.py: sequences\<close>

text \<open>A \<^verbatim>\<open>Sequence\<close> is a list whose entries are a character or \<^verbatim>\<open>None\<close> (a gap).\<close>

type_synonym Sequence = "char option list"

definition from_string_char :: "Alphabet \<Rightarrow> char \<Rightarrow> error + char option" where
  "from_string_char alphabet char =
     (if is_gap_char [char] then Inr None
      else bind (is_residue (Some [char]) alphabet) (\<lambda>res.
        if res then Inr (Some char)
        else bind (is_wildcard (Some [char]) alphabet) (\<lambda>wild.
          if \<not> wild then Inr (Some (if alphabet = AMINO then CHR ''X'' else CHR ''N''))
          else Inr (Some char))))"

definition from_string :: "string \<Rightarrow> Alphabet \<Rightarrow> error + Sequence" where
  "from_string line alphabet = map_err (from_string_char alphabet) line"

definition seq_str :: "Sequence \<Rightarrow> string" where
  "seq_str s = map (\<lambda>x. case x of None \<Rightarrow> CHR ''-'' | Some c \<Rightarrow> c) s"

section \<open>constants.py\<close>

text \<open>
  The module \<^verbatim>\<open>brawn/constants.py\<close> is not among the sources.  Its values are
  parameters of the model: every function that reads a constant takes the record of
  constants as its first argument, and the theorems hold for every value of them.  The
  numeric constants other than \<^verbatim>\<open>ID_GUARD\<close> are floats.
\<close>

record constants =
  GAP_OPEN :: pyfloat
  GAP_EXTEND :: pyfloat
  SCORE_CENTER :: pyfloat
  SCORE_GUARD :: pyfloat
  AMINO_SCORE_MATRIX :: "pyfloat list list"
  OTHER_SCORE_MATRIX :: "pyfloat list list"
  ID_GUARD :: int
  LENGTH_GUARD :: pyfloat
  VERSION :: string

section \<open>distance.py\<close>

definition KIMURA_TABLE :: "pyfloat list" where
  "KIMURA_TABLE = map fl [
    1.95, 1.96, 1.97, 1.98, 1.99, 2.00, 2.00, 2.01, 2.02, 2.03,
    2.04, 2.05, 2.06, 2.07, 2.08, 2.09, 2.09, 2.10, 2.11, 2.12,
    2.13, 2.14, 2.15, 2.16, 2.17, 2.18, 2.19, 2.20, 2.21, 2.22,
    2.23, 2.24, 2.26, 2.27, 2.28, 2.29, 2.30, 2.31, 2.32, 2.33,
    2.34, 2.36, 2.37, 2.38, 2.39, 2.40, 2.41, 2.43, 2.44, 2.45,
    2.46, 2.48, 2.49, 2.50, 2.52, 2.53, 2.54, 2.55, 2.57, 2.58,
    2.60, 2.61, 2.62, 2.64, 2.65, 2.67, 2.68, 2.70, 2.71, 2.73,
    2.74, 2.76, 2.77, 2.79, 2.81, 2.82, 2.84, 2.85, 2.87, 2.89,
    2.91, 2.92, 2.94, 2.96, 2.98, 2.99, 3.01, 3.03, 3.05, 3.07,
    3.09, 3.11, 3.13, 3.15, 3.17, 3.19, 3.21, 3.23, 3.25, 3.28,
    3.30, 3.32, 3.35, 3.37, 3.39, 3.42, 3.44, 3.47, 3.49, 3.52,
    3.54, 3.57, 3.60, 3.62, 3.65, 3.68, 3.71, 3.74, 3.77, 3.80,
    3.83, 3.86, 3.89, 3.93, 3.96, 3.99, 4.03, 4.07, 4.10, 4.14,
    4.18, 4.22, 4.26, 4.30, 4.34, 4.38, 4.42, 4.47, 4.51, 4.56,
    4.61, 4.66, 4.71, 4.76, 4.82, 4.87, 4.93, 4.98, 5.04, 5.11,
    5.17, 5.24, 5.31, 5.38, 5.45, 5.53, 5.60, 5.69, 5.77, 5.86,
    5.95, 6.05, 6.15, 6.26, 6.37, 6.49, 6.61, 6.75, 6.88, 7.03,
    7.19, 7.36, 7.54, 7.75, 7.96, 8.19, 8.45, 8.74, 9.07, 9.45,
    9.88]"

text \<open>In \<^verbatim>\<open>1 - diff - diff**2 / 5\<close> the power binds first, then the division, and the
  two subtractions go from left to right.\<close>

definition calculate_distance :: "platform \<Rightarrow> pyfloat \<Rightarrow> error + pyfloat" where
  "calculate_distance pf similarity =
     (let diff = fsub (Finite 1) similarity in
      if flt diff (Finite 0.75) then
        bind (py_square pf diff) (\<lambda>sq.
          bind (fdiv sq (Finite 5)) (\<lambda>q.
            bind (py_log pf (fsub (fsub (Finite 1) diff) q)) (\<lambda>l. Inr (fneg l))))
      else if fgt diff (fl 0.93) then Inr (Finite 10)
      else
        bind (py_floor (fadd (fmul (fsub diff (Finite 0.75)) (Finite 1000)) (Finite 0.5)))
          (py_index KIMURA_TABLE))"

section \<open>tree.py\<close>

text \<open>The field \<^verbatim>\<open>names\<close> of the tree is called \<open>leaf_names\<close> here, since the
  alignment has a field of the same name.\<close>

record Tree =
  node_count :: int
  parents :: "int list"
  lefts :: "int list"
  rights :: "int list"
  left_lengths :: "pyfloat list"
  right_lengths :: "pyfloat list"
  parent_lengths :: "pyfloat list"
  leaf_names :: "string list"
  root_node_index :: int
  leaf_count :: int

text \<open>The constructor with \<^verbatim>\<open>__post_init__\<close>: the leaf count is derived, then the
  assertions run in the order of the source.\<close>

definition Tree_init ::
  "constants \<Rightarrow> int \<Rightarrow> int list \<Rightarrow> int list \<Rightarrow> int list \<Rightarrow> pyfloat list \<Rightarrow> pyfloat list
     \<Rightarrow> pyfloat list \<Rightarrow> string list \<Rightarrow> int \<Rightarrow> error + Tree" where
  "Tree_init c n ps ls rs lls rls pls nms root_index =
     (let lc = (n + 1) div 2 in
      if \<not> n > 0 then Inl AssertionError
      else if int (length ps) \<noteq> n then Inl AssertionError
      else if int (length ls) \<noteq> n then Inl AssertionError
      else if int (length rs) \<noteq> n then Inl AssertionError
      else if int (length lls) \<noteq> n then Inl AssertionError
      else if int (length rls) \<noteq> n then Inl AssertionError
      else if int (length nms) \<noteq> lc then Inl AssertionError
      else bind (py_index ps root_index) (\<lambda>p.
        if p \<noteq> ID_GUARD c then Inl AssertionError
        else Inr \<lparr>node_count = n, parents = ps, lefts = ls, rights = rs,
                  left_lengths = lls, right_lengths = rls, parent_lengths = pls,
                  leaf_names = nms, root_node_index = root_index, leaf_count = lc\<rparr>))"

definition get_parent :: "Tree \<Rightarrow> int \<Rightarrow> error + int" where
  "get_parent t index =
     bind (py_index (parents t) index) (\<lambda>parent.
       if 0 \<le> parent \<and> parent < node_count t then Inr parent else Inl AssertionError)"

definition get_left :: "Tree \<Rightarrow> int \<Rightarrow> error + int" where
  "get_left t index = py_index (lefts t) index"

definition get_right :: "Tree \<Rightarrow> int \<Rightarrow> error + int" where
  "get_right t index = py_index (rights t) index"

definition is_leaf :: "constants \<Rightarrow> Tree \<Rightarrow> int \<Rightarrow> error + bool" where
  "is_leaf c t index =
     (if \<not> index < node_count t then Inl AssertionError
      else if node_count t = 1 then Inr True
      else bind (py_index (lefts t) index) (\<lambda>l.
        if l \<noteq> ID_GUARD c then Inr False
        else bind (py_index (rights t) index) (\<lambda>r. Inr (r = ID_GUARD c))))"

definition get_edge_length :: "Tree \<Rightarrow> int \<Rightarrow> int \<Rightarrow> error + pyfloat" where
  "get_edge_length t first second =
     bind (py_index (lefts t) first) (\<lambda>l.
       if l = second then py_index (left_lengths t) first
       else bind (py_index (rights t) first) (\<lambda>r.
         if r = second then py_index (right_lengths t) first
         else bind (py_index (parents t) first) (\<lambda>p.
           if p \<noteq> second then Inl ValueError
           else py_index (parent_lengths t) first)))"

text \<open>\<^verbatim>\<open>node_child_counts\<close>: the nested \<^verbatim>\<open>find_count\<close> recurses over the children and
  writes into the list \<^verbatim>\<open>leaves_under_node\<close>, which is threaded through here.  Python
  bounds the depth of the recursion (\<^verbatim>\<open>sys.getrecursionlimit()\<close>); the bound is the
  parameter \<open>limit\<close>, and exceeding it is the RecursionError of the interpreter.\<close>

fun find_count :: "constants \<Rightarrow> Tree \<Rightarrow> nat \<Rightarrow> int \<Rightarrow> int list \<Rightarrow> error + (int \<times> int list)" where
  "find_count c t 0 index lun = Inl RecursionError"
| "find_count c t (Suc limit) index lun =
     (if length lun = 1 then Inr (1, lun)
      else
        (case is_leaf c t index of
           Inl e \<Rightarrow> Inl e
         | Inr True \<Rightarrow> bind (py_set lun index 1) (\<lambda>lun'. Inr (1, lun'))
         | Inr False \<Rightarrow>
            (case get_left t index of
               Inl e \<Rightarrow> Inl e
             | Inr left \<Rightarrow>
                (case find_count c t limit left lun of
                   Inl e \<Rightarrow> Inl e
                 | Inr (left_count, lun1) \<Rightarrow>
                    (case get_right t index of
                       Inl e \<Rightarrow> Inl e
                     | Inr right \<Rightarrow>
                        (case find_count c t limit right lun1 of
                           Inl e \<Rightarrow> Inl e
                         | Inr (right_count, lun2) \<Rightarrow>
                             bind (py_set lun2 index (left_count + right_count))
                               (\<lambda>lun3. Inr (left_count + right_count, lun3))))))))"

definition node_child_counts :: "constants \<Rightarrow> nat \<Rightarrow> Tree \<Rightarrow> error + int list" where
  "node_child_counts c limit t =
     bind (find_count c t limit (root_node_index t) (replicate (nat (node_count t)) 0))
       (\<lambda>(count, lun). Inr lun)"

definition enumerate_py :: "'a list \<Rightarrow> (int \<times> 'a) list" where
  "enumerate_py xs = zip (map int [0..<length xs]) xs"

text \<open>One round of the first loop of \<^verbatim>\<open>get_weights\<close>: \<^verbatim>\<open>length / leaves\<close> converts the
  count to a float and raises ZeroDivisionError for a count of zero.\<close>

definition strength :: "Tree \<Rightarrow> int \<times> int \<Rightarrow> error + pyfloat" where
  "strength t il =
     (case il of (i, leaves) \<Rightarrow>
        if root_node_index t = i then Inr (Finite 0)
        else bind (get_parent t i) (\<lambda>parent.
          bind (get_edge_length t i parent) (\<lambda>len.
            bind (float_of_int leaves) (fdiv len))))"

text \<open>The inner \<^verbatim>\<open>while node != self.root_node_index\<close> loop.  It does not return when
  the parents form a cycle that misses the root: the value \<open>None\<close>.\<close>

partial_function (option) climb ::
  "Tree \<Rightarrow> pyfloat list \<Rightarrow> int \<Rightarrow> pyfloat \<Rightarrow> (error + pyfloat) option" where
  "climb t strengths node weight =
     (if node = root_node_index t then Some (Inr weight)
      else
        (case py_index strengths node of
           Inl e \<Rightarrow> Some (Inl e)
         | Inr s \<Rightarrow>
            (case get_parent t node of
               Inl e \<Rightarrow> Some (Inl e)
             | Inr parent \<Rightarrow> climb t strengths parent (fadd weight s))))"

text \<open>The degenerate-tree guard on a raw weight: \<^verbatim>\<open>if weight < 0.0001: weight = 1.\<close>\<close>

definition guard_weight :: "pyfloat \<Rightarrow> pyfloat" where
  "guard_weight w = (if flt w (fl 0.0001) then Finite 1 else w)"

definition leaf_weight :: "Tree \<Rightarrow> pyfloat list \<Rightarrow> int \<Rightarrow> error + pyfloat" where
  "leaf_weight t strengths node =
     (case climb t strengths node (Finite 0) of
        None \<Rightarrow> Inl NonTermination
      | Some r \<Rightarrow> bind r (\<lambda>weight. Inr (guard_weight weight)))"

definition normalise :: "platform \<Rightarrow> pyfloat list \<Rightarrow> error + pyfloat list" where
  "normalise pf vals = (let total = float_sum pf vals in map_err (\<lambda>v. fdiv v total) vals)"

definition get_weights :: "constants \<Rightarrow> platform \<Rightarrow> nat \<Rightarrow> Tree \<Rightarrow> error + pyfloat list" where
  "get_weights c pf limit t =
     (if leaf_count t = 0 then Inr []
      else if leaf_count t = 1 then Inr [Finite 1]
      else if leaf_count t = 2 then Inr [Finite 0.5, Finite 0.5]
      else bind (node_child_counts c limit t) (\<lambda>counts.
        bind (map_err (strength t) (enumerate_py counts)) (\<lambda>strengths.
          bind (map_err (leaf_weight t strengths) (map int [0..<nat (leaf_count t)]))
            (normalise pf))))"

section \<open>positions.py\<close>

record AlignmentPosition =
  sort_order :: "int list"
  base_counts :: "pyfloat list"
  scores :: "pyfloat list"
  ungapped_weight :: pyfloat
  gap_opens :: pyfloat
  gap_closes :: pyfloat
  score_gap_open :: pyfloat
  score_gap_close :: pyfloat

text \<open>The constructor of the dataclass: \<^verbatim>\<open>__post_init__\<close> overwrites the two gap scores,
  whatever was passed for them, by \<^verbatim>\<open>gap_opens * GAP_OPEN / 2\<close> and
  \<^verbatim>\<open>gap_closes * GAP_OPEN / 2\<close>.\<close>

definition AlignmentPosition_init ::
  "constants \<Rightarrow> int list \<Rightarrow> pyfloat list \<Rightarrow> pyfloat list \<Rightarrow> pyfloat \<Rightarrow> pyfloat \<Rightarrow> pyfloat
     \<Rightarrow> AlignmentPosition" where
  "AlignmentPosition_init c so bc sc uw go gc =
     \<lparr>sort_order = so, base_counts = bc, scores = sc, ungapped_weight = uw,
      gap_opens = go, gap_closes = gc,
      score_gap_open = fquot (fmul go (GAP_OPEN c)) (Finite 2),
      score_gap_close = fquot (fmul gc (GAP_OPEN c)) (Finite 2)\<rparr>"

text \<open>The loop of \<^verbatim>\<open>compare_profile_positions\<close>, which stops at the first zero count.\<close>

fun compare_loop ::
  "AlignmentPosition \<Rightarrow> AlignmentPosition \<Rightarrow> int list \<Rightarrow> pyfloat \<Rightarrow> error + pyfloat" where
  "compare_loop q r [] score = Inr score"
| "compare_loop q r (index # rest) score =
     (case py_index (base_counts q) index of
        Inl e \<Rightarrow> Inl e
      | Inr count \<Rightarrow>
          if count = Finite 0 then Inr score
          else
            (case py_index (scores r) index of
               Inl e \<Rightarrow> Inl e
             | Inr s \<Rightarrow> compare_loop q r rest (fadd score (fmul count s))))"

definition compare_profile_positions ::
  "constants \<Rightarrow> platform \<Rightarrow> AlignmentPosition \<Rightarrow> AlignmentPosition \<Rightarrow> Alphabet
     \<Rightarrow> error + pyfloat" where
  "compare_profile_positions c pf query_positions reference_positions alphabet =
     bind (compare_loop query_positions reference_positions (sort_order query_positions)
             (Finite 0))
       (\<lambda>score.
          if alphabet = AMINO then
            (if score = Finite 0 then Inr (Finite (- 2.5))
             else bind (py_log pf score) (\<lambda>l.
               Inr (fmul (fmul (fsub l (SCORE_CENTER c)) (ungapped_weight query_positions))
                      (ungapped_weight reference_positions))))
          else Inr (fsub score (SCORE_CENTER c)))"

text \<open>\<^verbatim>\<open>set_terminal_gaps\<close> assigns to fields of the first and the last position object.
  The positions of a profile are distinct objects here (each column is built or loaded
  as an object of its own), so the assignment is an update of the list; the updated list
  is returned.\<close>

definition set_terminal_gaps :: "constants \<Rightarrow> AlignmentPosition list \<Rightarrow> AlignmentPosition list" where
  "set_terminal_gaps c positions =
     (if positions = [] then positions
      else
        let ps1 = (if fne (score_gap_open (hd positions)) (SCORE_GUARD c)
                   then positions[0 := (hd positions)\<lparr>score_gap_open := Finite 0\<rparr>]
                   else positions)
        in if length ps1 > 1 \<and> fne (score_gap_open (last ps1)) (SCORE_GUARD c)
           then ps1[length ps1 - 1 := (last ps1)\<lparr>score_gap_close := Finite 0\<rparr>]
           else ps1)"

section \<open>path.py\<close>

datatype Modification = DELETION | INSERTION | MATCH

text \<open>The field \<^verbatim>\<open>type\<close> of an edge is called \<open>edge_type\<close>.\<close>

record Edge =
  edge_type :: Modification
  query_length :: int
  reference_length :: int

record Path =
  edges :: "Edge list"

section \<open>align.py\<close>

definition BIT_MM :: int where "BIT_MM = 0"
definition BIT_DM :: int where "BIT_DM = 1"
definition BIT_IM :: int where "BIT_IM = 2"
definition BIT__M :: int where "BIT__M = 3"
definition BIT_DD :: int where "BIT_DD = 0"
definition BIT_MD :: int where "BIT_MD = 4"
definition BIT__D :: int where "BIT__D = 4"
definition BIT_II :: int where "BIT_II = 0"
definition BIT_MI :: int where "BIT_MI = 8"
definition BIT__I :: int where "BIT__I = 8"

definition get_modification :: "int \<Rightarrow> Modification \<Rightarrow> error + Modification" where
  "get_modification bits previous =
     (case previous of
        MATCH \<Rightarrow>
          (let val = bits AND BIT__M in
           if val = BIT_MM then Inr MATCH
           else if val = BIT_DM then Inr DELETION
           else if val = BIT_IM then Inr INSERTION
           else Inl ValueError)
      | DELETION \<Rightarrow>
          (let val = bits AND BIT__D in
           if val = BIT_MD then Inr MATCH
           else if val = BIT_DD then Inr DELETION
           else Inl ValueError)
      | INSERTION \<Rightarrow>
          (let val = bits AND BIT__I in
           if val = BIT_MI then Inr MATCH
           else if val = BIT_II then Inr INSERTION
           else Inl ValueError))"

text \<open>One step of an edge: a match steps back in both profiles, a deletion in the
  query, an insertion in the reference.\<close>

definition step_back :: "Edge \<Rightarrow> Edge" where
  "step_back edge =
     (case edge_type edge of
        MATCH \<Rightarrow> edge\<lparr>query_length := query_length edge - 1,
                       reference_length := reference_length edge - 1\<rparr>
      | DELETION \<Rightarrow> edge\<lparr>query_length := query_length edge - 1\<rparr>
      | INSERTION \<Rightarrow> edge\<lparr>reference_length := reference_length edge - 1\<rparr>)"

text \<open>The \<^verbatim>\<open>while True\<close> loop of \<^verbatim>\<open>build_path\<close>.  The argument \<open>edge\<close> is the edge that
  was appended last, \<open>acc\<close> the list \<^verbatim>\<open>edges\<close>.  \<^verbatim>\<open>edge.copy()\<close> runs the assertions of
  \<^verbatim>\<open>Edge.__post_init__\<close>, so a negative counter ends the loop with AssertionError; the
  sum of the two counters decreases in every round.\<close>

function build_path_loop :: "int list list \<Rightarrow> Edge \<Rightarrow> Edge list \<Rightarrow> error + Edge list" where
  "build_path_loop tb edge acc =
     (case py_index tb (query_length edge) of
        Inl e \<Rightarrow> Inl e
      | Inr row \<Rightarrow>
         (case py_index row (reference_length edge) of
            Inl e \<Rightarrow> Inl e
          | Inr bits \<Rightarrow>
             (case get_modification bits (edge_type edge) of
                Inl e \<Rightarrow> Inl e
              | Inr next_edge_type \<Rightarrow>
                 (let stepped = step_back edge in
                  if query_length stepped = 0 \<and> reference_length stepped = 0 then Inr acc
                  else
                    (let edge' = stepped\<lparr>edge_type := next_edge_type\<rparr> in
                     if query_length edge' < 0 \<or> reference_length edge' < 0
                     then Inl AssertionError
                     else build_path_loop tb edge' (acc @ [edge']))))))"
  by pat_completeness auto
termination
proof (relation "measure (\<lambda>(tb, edge, acc). nat (query_length edge + reference_length edge))")
  show "wf (measure (\<lambda>(tb, edge, acc). nat (query_length edge + reference_length edge)))"
    by simp
next
  fix tb :: "int list list" and edge :: Edge and acc :: "Edge list"
    and row bits next_edge_type stepped edge'
  assume st: "stepped = step_back edge"
    and e': "edge' = stepped\<lparr>edge_type := next_edge_type\<rparr>"
    and nonneg: "\<not> (query_length edge' < 0 \<or> reference_length edge' < 0)"
  have "query_length stepped + reference_length stepped < query_length edge + reference_length edge"
    unfolding st step_back_def by (cases "edge_type edge") simp_all
  with e' nonneg
  show "((tb, edge', acc @ [edge']), (tb, edge, acc))
          \<in> measure (\<lambda>(tb, edge, acc). nat (query_length edge + reference_length edge))"
    by simp
qed

declare build_path_loop.simps [simp del]

definition build_path :: "int list list \<Rightarrow> int \<Rightarrow> int \<Rightarrow> Modification \<Rightarrow> error + Path" where
  "build_path tb query_len reference_len last_edge =
     (if query_len < 0 \<or> reference_len < 0 then Inl AssertionError
      else
        let edge = \<lparr>edge_type = last_edge, query_length = query_len,
                    reference_length = reference_len\<rparr>
        in bind (build_path_loop tb edge [edge]) (\<lambda>es. Inr \<lparr>edges = rev es\<rparr>))"

text \<open>
  The state of \<^verbatim>\<open>global_align\<close>: the three score rows, the delete row and the traceback
  matrix, which the nested functions of the source assign to.  The rows have length
  \<open>R + 1\<close> and the matrix has \<open>Q + 1\<close> rows of length \<open>R + 1\<close>; every index the loops
  use lies in these ranges once \<open>Q \<ge> 1\<close> and \<open>R \<ge> 1\<close>, so the lists are read with
  \<open>!\<close> and written with list update.
\<close>

record dp_state =
  current_match :: "pyfloat list"
  next_match :: "pyfloat list"
  prev_match :: "pyfloat list"
  delete_row :: "pyfloat list"
  traceback :: "int list list"

definition cell :: "dp_state \<Rightarrow> nat \<Rightarrow> nat \<Rightarrow> int" where
  "cell st i j = traceback st ! i ! j"

definition set_cell :: "dp_state \<Rightarrow> nat \<Rightarrow> nat \<Rightarrow> int \<Rightarrow> dp_state" where
  "set_cell st i j v = st\<lparr>traceback := (traceback st)[i := (traceback st ! i)[j := v]]\<rparr>"

text \<open>An index of a loop as a float, for the products \<^verbatim>\<open>(j - 2) * GAP_EXTEND\<close>.  (An
  integer beyond the range of the doubles would raise OverflowError; the indices are
  below the length of a list.)\<close>

definition index_float :: "int \<Rightarrow> pyfloat" where
  "index_float i = fl (of_int i)"

definition recurse_d :: "constants \<Rightarrow> AlignmentPosition list \<Rightarrow> nat \<Rightarrow> nat \<Rightarrow> dp_state \<Rightarrow> dp_state" where
  "recurse_d c query_positions i j st =
     (let dd = fadd (delete_row st ! j) (GAP_EXTEND c);
          md = fadd (prev_match st ! j) (score_gap_open (query_positions ! (i - 1)))
      in if fgt dd md then st\<lparr>delete_row := (delete_row st)[j := dd]\<rparr>
         else set_cell (st\<lparr>delete_row := (delete_row st)[j := md]\<rparr>) i j
                ((cell st i j AND NOT BIT__D) OR BIT_MD))"

definition recurse_i ::
  "constants \<Rightarrow> AlignmentPosition list \<Rightarrow> nat \<Rightarrow> nat \<Rightarrow> pyfloat \<times> dp_state \<Rightarrow> pyfloat \<times> dp_state" where
  "recurse_i c reference_positions i j s =
     (case s of (iij, st) \<Rightarrow>
        let iij' = fadd iij (GAP_EXTEND c);
            mi = fadd (current_match st ! (j - 1)) (score_gap_open (reference_positions ! (j - 1)))
        in if fge mi iij' then (mi, set_cell st i j ((cell st i j AND NOT BIT__I) OR BIT_MI))
           else (iij', st))"

definition recurse_m ::
  "AlignmentPosition list \<Rightarrow> AlignmentPosition list \<Rightarrow> pyfloat \<Rightarrow> nat \<Rightarrow> nat \<Rightarrow> dp_state \<Rightarrow> dp_state" where
  "recurse_m query_positions reference_positions iij i j st =
     (let dm = fadd (delete_row st ! j) (score_gap_close (query_positions ! (i - 1)));
          im = fadd iij (score_gap_close (reference_positions ! (j - 1)));
          mm = current_match st ! j;
          (add, bit) = (if fge mm dm \<and> fge mm im then (mm, BIT_MM)
                        else if fge dm mm \<and> fge dm im then (dm, BIT_DM)
                        else (im, BIT_IM));
          st' = st\<lparr>next_match := (next_match st)[j + 1 := fadd (next_match st ! (j + 1)) add]\<rparr>
      in set_cell st' (i + 1) (j + 1) ((cell st' (i + 1) (j + 1) AND NOT BIT__M) OR bit))"

definition set_bit_tbm :: "nat \<Rightarrow> nat \<Rightarrow> Modification \<Rightarrow> dp_state \<Rightarrow> dp_state" where
  "set_bit_tbm i j modification st =
     (let bit = (case modification of MATCH \<Rightarrow> BIT_MM | DELETION \<Rightarrow> BIT_DM | INSERTION \<Rightarrow> BIT_IM)
      in set_cell st i j ((cell st i j AND NOT BIT__M) OR bit))"

text \<open>The first loop: the first row of match scores.\<close>

definition init_column ::
  "constants \<Rightarrow> platform \<Rightarrow> AlignmentPosition list \<Rightarrow> AlignmentPosition list \<Rightarrow> Alphabet \<Rightarrow> nat
     \<Rightarrow> dp_state \<Rightarrow> error + dp_state" where
  "init_column c pf qp rp alphabet j st =
     bind (compare_profile_positions c pf (qp ! 0) (rp ! (j - 1)) alphabet) (\<lambda>cmp.
       Inr (set_bit_tbm 1 j INSERTION
         (st\<lparr>current_match := (current_match st)[j :=
              fadd (fadd (fadd cmp (score_gap_open (rp ! 0)))
                      (fmul (index_float (int j - 2)) (GAP_EXTEND c)))
                (score_gap_close (rp ! (j - 2)))]\<rparr>)))"

text \<open>The body of the loop over the rows \<open>1 \<le> i < Q\<close>.\<close>

definition mid_row ::
  "constants \<Rightarrow> platform \<Rightarrow> AlignmentPosition list \<Rightarrow> AlignmentPosition list \<Rightarrow> Alphabet \<Rightarrow> nat
     \<Rightarrow> dp_state \<Rightarrow> error + dp_state" where
  "mid_row c pf qp rp alphabet i st0 =
     (let R = length rp;
          st1 = st0\<lparr>delete_row := (delete_row st0)[0 :=
                     fadd (score_gap_open (qp ! 0))
                       (fmul (index_float (int i - 1)) (GAP_EXTEND c))]\<rparr>;
          st2 = st1\<lparr>current_match := (current_match st1)[0 := SCORE_GUARD c]\<rparr>
      in bind
           (if i = 1 then
              bind (compare_profile_positions c pf (qp ! 0) (rp ! 0) alphabet) (\<lambda>cmp.
                Inr (set_bit_tbm i 1 MATCH
                  (st2\<lparr>current_match := (current_match st2)[1 := cmp]\<rparr>)))
            else
              bind (compare_profile_positions c pf (qp ! (i - 1)) (rp ! 0) alphabet) (\<lambda>cmp.
                Inr (set_bit_tbm i 1 DELETION
                  (st2\<lparr>current_match := (current_match st2)[1 :=
                      fadd (fadd (fadd cmp (score_gap_open (qp ! 0)))
                              (fmul (index_float (int i - 2)) (GAP_EXTEND c)))
                        (score_gap_close (qp ! (i - 2)))]\<rparr>))))
           (\<lambda>st3.
              bind (fold_err (\<lambda>j st.
                      bind (compare_profile_positions c pf (qp ! i) (rp ! j) alphabet) (\<lambda>cmp.
                        Inr (st\<lparr>next_match := (next_match st)[j + 1 := cmp]\<rparr>)))
                    [1..<R] st3)
                (\<lambda>st4.
                   let (iij5, st5) =
                         fold (\<lambda>j (iij, st).
                                 let (iij', st') = recurse_i c rp i j (iij, recurse_d c qp i j st)
                                 in (iij', recurse_m qp rp iij' i j st'))
                              [1..<R] (SCORE_GUARD c, st4);
                       (iij6, st6) = recurse_i c rp i R (iij5, recurse_d c qp i R st5)
                   in Inr (st6\<lparr>prev_match := current_match st6,
                                current_match := next_match st6,
                                next_match := prev_match st6\<rparr>))))"

text \<open>The body of \<^verbatim>\<open>global_align\<close> between the terminal gaps and the traceback: it
  fills the matrix and chooses the type of the last edge.  The profiles \<open>qp\<close> and \<open>rp\<close>
  are not empty here.\<close>

definition fill_matrix ::
  "constants \<Rightarrow> platform \<Rightarrow> AlignmentPosition list \<Rightarrow> AlignmentPosition list \<Rightarrow> Alphabet
     \<Rightarrow> error + (int list list \<times> Modification)" where
  "fill_matrix c pf qp rp alphabet =
     (let Q = length qp;
          R = length rp;
          pref1 = Q + 1;
          pref2 = R + 1;
          st0 = \<lparr>current_match = replicate pref2 (Finite 0),
                 next_match = replicate pref2 (Finite 0),
                 prev_match = (replicate pref2 (SCORE_GUARD c))[0 := Finite 0],
                 delete_row = replicate pref2 (SCORE_GUARD c),
                 traceback = replicate pref1 (replicate pref2 0)\<rparr>;
          st1 = st0\<lparr>current_match := (current_match st0)[0 := SCORE_GUARD c]\<rparr>
      in bind (compare_profile_positions c pf (qp ! 0) (rp ! 0) alphabet) (\<lambda>cmp0.
         let st2 = set_bit_tbm 1 1 MATCH
                     (st1\<lparr>current_match := (current_match st1)[1 := cmp0]\<rparr>)
         in bind (fold_err (init_column c pf qp rp alphabet) [2..<pref2] st2) (\<lambda>st3.
            bind (fold_err (mid_row c pf qp rp alphabet) [1..<Q] st3) (\<lambda>st4.
            let st5 = st4\<lparr>current_match := (current_match st4)[0 := SCORE_GUARD c]\<rparr>
            in bind (compare_profile_positions c pf (qp ! (Q - 1)) (rp ! 0) alphabet) (\<lambda>comparison.
               bind (py_index qp (int Q - 2)) (\<lambda>q_before_last.
               let cm1 = fadd comparison (score_gap_open (qp ! 0));
                   cm1' = fadd cm1 (fadd (fmul (index_float (int Q - 2)) (GAP_EXTEND c))
                                      (score_gap_close q_before_last));
                   st6 = set_bit_tbm Q 1 DELETION
                           (st5\<lparr>current_match := (current_match st5)[1 := cm1']\<rparr>);
                   st7 = st6\<lparr>delete_row := (delete_row st6)[0 := SCORE_GUARD c]\<rparr>;
                   st8 = fold (recurse_d c qp Q) [1..<pref2] st7;
                   (iij, st9) = fold (recurse_i c rp Q) [1..<pref2] (SCORE_GUARD c, st8);
                   dab = delete_row st9 ! R;
                   iab = iij;
                   score0 = current_match st9 ! R;
                   (score1, edge1) = (if fgt dab score0 then (dab, DELETION) else (score0, MATCH));
                   (score2, edge2) = (if fgt iab score1 then (iab, INSERTION) else (score1, edge1))
               in Inr (traceback st9, edge2)))))))"

text \<open>\<^verbatim>\<open>global_align\<close> returns the path; the two profiles it was given are changed by
  \<^verbatim>\<open>set_terminal_gaps\<close>, so the model returns them as they are afterwards, too.  With an
  empty profile the first read \<^verbatim>\<open>query_positions[0]\<close> or \<^verbatim>\<open>reference_positions[0]\<close>
  raises IndexError.\<close>

definition global_align ::
  "constants \<Rightarrow> platform \<Rightarrow> AlignmentPosition list \<Rightarrow> AlignmentPosition list \<Rightarrow> Alphabet
     \<Rightarrow> error + (Path \<times> AlignmentPosition list \<times> AlignmentPosition list)" where
  "global_align c pf query_positions reference_positions alphabet =
     (let qp = set_terminal_gaps c query_positions;
          rp = set_terminal_gaps c reference_positions
      in if length qp = 0 \<or> length rp = 0 then Inl IndexError
         else
           bind (fill_matrix c pf qp rp alphabet) (\<lambda>(tb, last_edge).
             bind (build_path tb (int (length qp)) (int (length rp)) last_edge) (\<lambda>path.
               Inr (path, qp, rp))))"

section \<open>alignment.py: the alignment\<close>

text \<open>
  An \<^verbatim>\<open>Alignment\<close> object.  The dictionary \<^verbatim>\<open>_sequence_by_name\<close> is an association list
  in insertion order (its keys are distinct, as the keys of a Python dictionary are);
  \<^verbatim>\<open>_names\<close> and \<^verbatim>\<open>_sequences\<close> are its keys and values.  The three memoised fields
  \<^verbatim>\<open>_tree\<close>, \<^verbatim>\<open>_weights\<close> and \<^verbatim>\<open>_positions\<close> are \<open>None\<close> until they are built or
  supplied.  A method that memoises returns the updated object with its result.
\<close>

record Alignment =
  col_count :: nat
  alphabet :: Alphabet
  sequence_by_name :: "(string \<times> Sequence) list"
  cached_tree :: "Tree option"
  cached_weights :: "pyfloat list option"
  cached_positions :: "AlignmentPosition list option"

definition names :: "Alignment \<Rightarrow> string list" where
  "names a = map fst (sequence_by_name a)"

definition sequences :: "Alignment \<Rightarrow> Sequence list" where
  "sequences a = map snd (sequence_by_name a)"

text \<open>The constructor.  A list or tuple is \<^emph>\<open>truthy\<close> when it is not \<open>None\<close> and not
  empty.\<close>

definition truthy :: "'a list option \<Rightarrow> bool" where
  "truthy x = (case x of None \<Rightarrow> False | Some xs \<Rightarrow> xs \<noteq> [])"

definition Alignment_init ::
  "(string \<times> string) list \<Rightarrow> Tree option \<Rightarrow> pyfloat list option
     \<Rightarrow> AlignmentPosition list option \<Rightarrow> error + Alignment" where
  "Alignment_init sbn tree_arg weights_arg positions_arg =
     (if sbn = [] then Inl ValueError
      else
        let cc = length (snd (hd sbn)) in
        if \<not> list_all (\<lambda>(name, seq). length seq = cc) sbn then Inl ValueError
        else if truthy weights_arg \<and> length (the weights_arg) \<noteq> length sbn then Inl ValueError
        else if truthy positions_arg \<and> length (the positions_arg) \<noteq> cc then Inl ValueError
        else
          bind (map_err (\<lambda>(name, seq). bind (from_string seq AMINO) (\<lambda>sq. Inr (name, sq))) sbn)
            (\<lambda>seqs. Inr \<lparr>col_count = cc, alphabet = AMINO, sequence_by_name = seqs,
                          cached_tree = tree_arg, cached_weights = weights_arg,
                          cached_positions = positions_arg\<rparr>))"

text \<open>\<^verbatim>\<open>get_percentage_identity_pair\<close>: the quotient \<^verbatim>\<open>same / count\<close> of two integers is
  the double nearest to the exact quotient.\<close>

definition get_percentage_identity_pair :: "Alignment \<Rightarrow> int \<Rightarrow> int \<Rightarrow> error + pyfloat" where
  "get_percentage_identity_pair a i j =
     bind (py_index (sequences a) i) (\<lambda>si.
       bind (py_index (sequences a) j) (\<lambda>sj.
         let pairs = filter (\<lambda>(first, second). first \<noteq> None \<and> second \<noteq> None) (zip si sj);
             count = length pairs;
             same = length (filter (\<lambda>(first, second). first = second) pairs)
         in Inr (if count = 0 then Finite 0 else fl (real same / real count))))"

section \<open>alignment.py: the guide tree\<close>

definition get_flat_index :: "int \<Rightarrow> int \<Rightarrow> int" where
  "get_flat_index i j = (if i \<ge> j then i * (i - 1) div 2 + j else j * (j - 1) div 2 + i)"

text \<open>The lists that \<^verbatim>\<open>tree_from_alignment\<close> assigns to.\<close>

record tree_state =
  distances :: "pyfloat list"
  node_indices :: "int list"
  nearest_neighbours :: "int list"
  min_dists :: "pyfloat list"
  ts_lefts :: "int list"
  ts_rights :: "int list"
  heights :: "pyfloat list"
  ts_left_lengths :: "pyfloat list"
  ts_right_lengths :: "pyfloat list"

text \<open>First loop, first inner loop: the distance of the pair \<open>(i, j)\<close>.\<close>

definition set_distance ::
  "platform \<Rightarrow> Alignment \<Rightarrow> int \<Rightarrow> int \<Rightarrow> tree_state \<Rightarrow> error + tree_state" where
  "set_distance pf a i j st =
     bind (get_percentage_identity_pair a i j) (\<lambda>pid.
       bind (calculate_distance pf pid) (\<lambda>d.
         bind (py_set (distances st) (get_flat_index i 0 + j) d) (\<lambda>ds.
           Inr (st\<lparr>distances := ds\<rparr>))))"

text \<open>First loop, second inner loop: the nearest neighbours of \<open>i\<close> and \<open>j\<close>.\<close>

definition update_nearest :: "int \<Rightarrow> int \<Rightarrow> tree_state \<Rightarrow> error + tree_state" where
  "update_nearest i j st =
     bind (py_index (distances st) (get_flat_index i 0 + j)) (\<lambda>distance.
       bind (py_index (min_dists st) i) (\<lambda>mi.
         bind (if flt distance mi
               then bind (py_set (min_dists st) i distance) (\<lambda>md.
                      bind (py_set (nearest_neighbours st) i j) (\<lambda>nn.
                        Inr (st\<lparr>min_dists := md, nearest_neighbours := nn\<rparr>)))
               else Inr st) (\<lambda>st1.
           bind (py_index (min_dists st1) j) (\<lambda>mj.
             if flt distance mj
             then bind (py_set (min_dists st1) j distance) (\<lambda>md.
                    bind (py_set (nearest_neighbours st1) j i) (\<lambda>nn.
                      Inr (st1\<lparr>min_dists := md, nearest_neighbours := nn\<rparr>)))
             else Inr st1))))"

definition distance_row :: "platform \<Rightarrow> Alignment \<Rightarrow> int \<Rightarrow> tree_state \<Rightarrow> error + tree_state" where
  "distance_row pf a i st =
     bind (fold_err (set_distance pf a i) (map int [0..<nat i]) st)
       (fold_err (update_nearest i) (map int [0..<nat i]))"

text \<open>Second loop, first inner loop: the active slot with the least distance to its
  nearest neighbour.  The state is \<open>(left_min, right_min, min_dist)\<close>.\<close>

definition find_min ::
  "constants \<Rightarrow> tree_state \<Rightarrow> int \<Rightarrow> int \<times> int \<times> pyfloat \<Rightarrow> error + int \<times> int \<times> pyfloat" where
  "find_min c st j s =
     (case s of (left_min, right_min, min_dist) \<Rightarrow>
        bind (py_index (node_indices st) j) (\<lambda>nj.
          if nj = ID_GUARD c then Inr s
          else bind (py_index (min_dists st) j) (\<lambda>distance.
            if flt distance min_dist
            then bind (py_index (nearest_neighbours st) j) (\<lambda>nn. Inr (j, nn, distance))
            else Inr s)))"

text \<open>Second loop, second inner loop: the distances from the merged cluster.  The state
  is \<open>(new_min_dist, new_nearest)\<close> with the lists.\<close>

definition merge_distance ::
  "constants \<Rightarrow> int \<Rightarrow> int \<Rightarrow> int \<Rightarrow> (pyfloat \<times> int) \<times> tree_state
     \<Rightarrow> error + (pyfloat \<times> int) \<times> tree_state" where
  "merge_distance c left_min right_min j s =
     (case s of ((new_min_dist, new_nearest), st) \<Rightarrow>
        if j = left_min \<or> j = right_min then Inr s
        else bind (py_index (node_indices st) j) (\<lambda>nj.
          if nj = ID_GUARD c then Inr s
          else
            let left_index = get_flat_index left_min j in
            bind (py_index (distances st) left_index) (\<lambda>distance_left.
              bind (py_index (distances st) (get_flat_index right_min j)) (\<lambda>distance_right.
                let new_dist = fadd (fmul (fl 0.1) (fquot (fadd distance_left distance_right) (Finite 2)))
                                 (fmul (fl 0.9) (fmin distance_left distance_right))
                in bind (py_index (nearest_neighbours st) j) (\<lambda>nn.
                     bind (if nn = right_min then py_set (nearest_neighbours st) j left_min
                           else Inr (nearest_neighbours st)) (\<lambda>nns.
                       bind (py_set (distances st) left_index new_dist) (\<lambda>ds.
                         let st' = st\<lparr>nearest_neighbours := nns, distances := ds\<rparr>
                         in Inr (if flt new_dist new_min_dist then ((new_dist, j), st')
                                 else ((new_min_dist, new_nearest), st')))))))))"

text \<open>The body of the second loop: one internal node.\<close>

definition join_nodes :: "constants \<Rightarrow> int \<Rightarrow> int \<Rightarrow> tree_state \<Rightarrow> error + tree_state" where
  "join_nodes c leaf_cnt internal_node_index st =
     (let js = map int [0..<nat leaf_cnt] in
      bind (fold_err (find_min c st) js (ID_GUARD c, ID_GUARD c, LENGTH_GUARD c))
        (\<lambda>(left_min, right_min, min_dist).
           if left_min = ID_GUARD c then Inl AssertionError
           else if right_min = ID_GUARD c then Inl AssertionError
           else
             bind (fold_err (merge_distance c left_min right_min) js
                     ((LENGTH_GUARD c, ID_GUARD c), st))
               (\<lambda>((new_min_dist, new_nearest), st1).
                  if \<not> (internal_node_index < leaf_cnt - 1 \<or> fne new_min_dist (LENGTH_GUARD c))
                  then Inl AssertionError
                  else if \<not> (internal_node_index < leaf_cnt - 1 \<or> new_nearest \<noteq> ID_GUARD c)
                  then Inl AssertionError
                  else
                    bind (py_index (distances st1) (get_flat_index left_min right_min)) (\<lambda>d.
                    let new_height = fquot d (Finite 2) in
                    bind (py_index (node_indices st1) left_min) (\<lambda>left.
                    bind (py_index (node_indices st1) right_min) (\<lambda>right.
                    bind (if left < leaf_cnt then Inr (Finite 0)
                          else py_index (heights st1) (left - leaf_cnt)) (\<lambda>height_left.
                    bind (if right < leaf_cnt then Inr (Finite 0)
                          else py_index (heights st1) (right - leaf_cnt)) (\<lambda>height_right.
                    bind (py_set (ts_lefts st1) internal_node_index left) (\<lambda>ls.
                    bind (py_set (ts_rights st1) internal_node_index right) (\<lambda>rs.
                    bind (py_set (ts_left_lengths st1) internal_node_index
                            (fsub new_height height_left)) (\<lambda>lls.
                    bind (py_set (ts_right_lengths st1) internal_node_index
                            (fsub new_height height_right)) (\<lambda>rls.
                    bind (py_set (heights st1) internal_node_index new_height) (\<lambda>hs.
                    bind (py_set (node_indices st1) left_min
                            (leaf_cnt + internal_node_index)) (\<lambda>nis.
                    bind (py_set (nearest_neighbours st1) left_min new_nearest) (\<lambda>nns.
                    bind (py_set (min_dists st1) left_min new_min_dist) (\<lambda>mds.
                    bind (py_set nis right_min (ID_GUARD c)) (\<lambda>nis'.
                      Inr (st1\<lparr>ts_lefts := ls, ts_rights := rs, ts_left_lengths := lls,
                                ts_right_lengths := rls, heights := hs, node_indices := nis',
                                nearest_neighbours := nns, min_dists := mds\<rparr>))))))))))))))))))"

text \<open>The last loop: the parents and the lengths to them.  The state is
  \<open>(parents, parent_lengths)\<close>.\<close>

definition set_parents ::
  "int list \<Rightarrow> int list \<Rightarrow> pyfloat list \<Rightarrow> pyfloat list \<Rightarrow> int \<Rightarrow> int list \<times> pyfloat list
     \<Rightarrow> error + int list \<times> pyfloat list" where
  "set_parents ls rs lls rls i s =
     (case s of (ps, pls) \<Rightarrow>
        bind (py_index ls i) (\<lambda>left.
        bind (py_index rs i) (\<lambda>right.
        bind (py_set ps left i) (\<lambda>ps1.
        bind (py_set ps1 right i) (\<lambda>ps2.
        bind (py_index lls i) (\<lambda>ll.
        bind (py_set pls left ll) (\<lambda>pls1.
        bind (py_index rls i) (\<lambda>rl.
        bind (py_set pls1 right rl) (\<lambda>pls2. Inr (ps2, pls2))))))))))"

definition tree_from_alignment :: "constants \<Rightarrow> platform \<Rightarrow> Alignment \<Rightarrow> error + Tree" where
  "tree_from_alignment c pf a =
     (let leaf_cnt = int (length (sequences a));
          internal_node_count = leaf_cnt - 1;
          n = nat leaf_cnt;
          m = nat internal_node_count;
          st0 = \<lparr>distances = replicate (nat ((leaf_cnt * internal_node_count) div 2)) (Finite 0),
                 node_indices = map int [0..<n],
                 nearest_neighbours = replicate n (ID_GUARD c),
                 min_dists = replicate n (LENGTH_GUARD c),
                 ts_lefts = replicate m (ID_GUARD c),
                 ts_rights = replicate m (ID_GUARD c),
                 heights = replicate m (LENGTH_GUARD c),
                 ts_left_lengths = replicate m (LENGTH_GUARD c),
                 ts_right_lengths = replicate m (LENGTH_GUARD c)\<rparr>
      in bind (fold_err (distance_row pf a) (map int [1..<n]) st0) (\<lambda>st1.
         bind (fold_err (join_nodes c leaf_cnt) (map int [0..<m]) st1) (\<lambda>st2.
         let nc = 2 * leaf_cnt - 1;
             root_index = nc - 1;
             ls = replicate n (ID_GUARD c) @ ts_lefts st2;
             rs = replicate n (ID_GUARD c) @ ts_rights st2;
             lls = replicate n (LENGTH_GUARD c) @ ts_left_lengths st2;
             rls = replicate n (LENGTH_GUARD c) @ ts_right_lengths st2
         in bind (fold_err (set_parents ls rs lls rls) (map int [n..<nat nc])
                    (replicate (nat nc) (ID_GUARD c), replicate (nat nc) (LENGTH_GUARD c)))
              (\<lambda>(ps, pls). Tree_init c nc ps ls rs lls rls pls (names a) root_index))))"

section \<open>alignment.py: weights and profile positions\<close>

text \<open>\<^verbatim>\<open>_build_weights\<close>, and the memoising \<^verbatim>\<open>Alignment.get_weights\<close> (called
  \<open>ensure_weights\<close> here, since the tree has a method of the same name).\<close>

definition build_weights ::
  "constants \<Rightarrow> platform \<Rightarrow> nat \<Rightarrow> Alignment \<Rightarrow> error + (pyfloat list \<times> Alignment)" where
  "build_weights c pf limit a =
     (case cached_weights a of
        Some w \<Rightarrow> Inr (w, a)
      | None \<Rightarrow>
          bind (case cached_tree a of
                  Some t \<Rightarrow> Inr (t, a)
                | None \<Rightarrow> bind (tree_from_alignment c pf a) (\<lambda>t. Inr (t, a\<lparr>cached_tree := Some t\<rparr>)))
            (\<lambda>(t, a'). bind (get_weights c pf limit t) (\<lambda>w. Inr (w, a'))))"

definition ensure_weights ::
  "constants \<Rightarrow> platform \<Rightarrow> nat \<Rightarrow> Alignment \<Rightarrow> error + (pyfloat list \<times> Alignment)" where
  "ensure_weights c pf limit a =
     (case cached_weights a of
        Some w \<Rightarrow> Inr (w, a)
      | None \<Rightarrow> bind (build_weights c pf limit a) (\<lambda>(w, a'). Inr (w, a'\<lparr>cached_weights := Some w\<rparr>)))"

text \<open>The sum of the weights of the sequences that satisfy a condition: the loops of
  \<^verbatim>\<open>get_column_ungapped_weight\<close>, \<^verbatim>\<open>get_gap_open_weight_total\<close> and
  \<^verbatim>\<open>get_gap_close_weight_total\<close>, with the memoised list of weights \<open>ws\<close>.\<close>

definition weight_total ::
  "(Sequence \<Rightarrow> error + bool) \<Rightarrow> Sequence list \<Rightarrow> pyfloat list \<Rightarrow> error + pyfloat" where
  "weight_total cond seqs ws =
     fold_err (\<lambda>(i, seq) total.
                 bind (cond seq) (\<lambda>b.
                   if b then bind (py_index ws i) (\<lambda>w. Inr (fadd total w)) else Inr total))
       (enumerate_py seqs) (Finite 0)"

definition get_column_ungapped_weight :: "Sequence list \<Rightarrow> pyfloat list \<Rightarrow> int \<Rightarrow> error + pyfloat" where
  "get_column_ungapped_weight seqs ws column =
     weight_total (\<lambda>seq. bind (py_index seq column) (\<lambda>ch. Inr (ch = None))) seqs ws"

definition get_gap_open_weight_total :: "Sequence list \<Rightarrow> pyfloat list \<Rightarrow> int \<Rightarrow> error + pyfloat" where
  "get_gap_open_weight_total seqs ws column =
     (if column < 1
      then weight_total (\<lambda>seq. bind (py_index seq column) (\<lambda>ch. Inr (ch = None))) seqs ws
      else weight_total (\<lambda>seq. bind (py_index seq column) (\<lambda>ch.
             if ch \<noteq> None then Inr False
             else bind (py_index seq (column - 1)) (\<lambda>before. Inr (before \<noteq> None)))) seqs ws)"

definition get_gap_close_weight_total ::
  "nat \<Rightarrow> Sequence list \<Rightarrow> pyfloat list \<Rightarrow> int \<Rightarrow> error + pyfloat" where
  "get_gap_close_weight_total cc seqs ws column =
     (if int cc - 1 = column
      then weight_total (\<lambda>seq. bind (py_index seq column) (\<lambda>ch. Inr (ch = None))) seqs ws
      else weight_total (\<lambda>seq. bind (py_index seq column) (\<lambda>ch.
             if ch \<noteq> None then Inr False
             else bind (py_index seq (column + 1)) (\<lambda>after. Inr (after \<noteq> None)))) seqs ws)"

text \<open>\<^verbatim>\<open>counts[index] += amount\<close>, and a lookup in one of the index dictionaries.\<close>

definition add_at :: "pyfloat list \<Rightarrow> int \<Rightarrow> pyfloat \<Rightarrow> error + pyfloat list" where
  "add_at cs index amount = bind (py_index cs index) (\<lambda>x. py_set cs index (fadd x amount))"

definition index_of :: "(char \<times> int) list \<Rightarrow> char \<Rightarrow> error + int" where
  "index_of table ch = (case map_of table ch of None \<Rightarrow> Inl KeyError | Some i \<Rightarrow> Inr i)"

text \<open>One round of the loop of \<^verbatim>\<open>get_fractional_weighted_counts\<close>; the state is
  \<open>(counts, total_weight)\<close>.\<close>

definition count_residue ::
  "Alphabet \<Rightarrow> int \<Rightarrow> Sequence \<times> pyfloat \<Rightarrow> pyfloat list \<times> pyfloat
     \<Rightarrow> error + pyfloat list \<times> pyfloat" where
  "count_residue alpha col_index sw s =
     (case sw of (seq, weight) \<Rightarrow> case s of (cs, total_weight) \<Rightarrow>
        bind (py_index seq col_index) (\<lambda>entry.
          case entry of
            None \<Rightarrow> Inr s
          | Some ch \<Rightarrow>
              bind (is_wildcard (Some [ch]) alpha) (\<lambda>wild.
                bind
                  (if wild then
                     (if alpha = AMINO then
                        (if ch = CHR ''B'' then
                           bind (index_of AMINO_INDICES CHR ''D'') (\<lambda>d.
                           bind (add_at cs d (fquot weight (Finite 2))) (\<lambda>cs1.
                           bind (index_of AMINO_INDICES CHR ''N'') (\<lambda>n. add_at cs1 n (fquot weight (Finite 2)))))
                         else if ch = CHR ''Z'' then
                           bind (index_of AMINO_INDICES CHR ''E'') (\<lambda>e.
                           bind (add_at cs e (fquot weight (Finite 2))) (\<lambda>cs1.
                           bind (index_of AMINO_INDICES CHR ''Q'') (\<lambda>q. add_at cs1 q (fquot weight (Finite 2)))))
                         else Inr (map (\<lambda>x. fadd x (fquot weight (Finite (real (get_size alpha))))) cs))
                      else
                        (if ch = CHR ''R'' then
                           bind (index_of DNA_INDICES CHR ''G'') (\<lambda>g.
                           bind (add_at cs g (fquot weight (Finite 2))) (\<lambda>cs1.
                           bind (index_of DNA_INDICES CHR ''A'') (\<lambda>a. add_at cs1 a (fquot weight (Finite 2)))))
                         else if ch = CHR ''Y'' then
                           bind (index_of DNA_INDICES CHR ''C'') (\<lambda>c'.
                           bind (add_at cs c' (fquot weight (Finite 2))) (\<lambda>cs1.
                           bind (index_of DNA_INDICES CHR ''T'') (\<lambda>t. add_at cs1 t (fquot weight (Finite 2)))))
                         else Inr (map (\<lambda>x. fadd x (fquot weight (Finite 20))) cs)))
                   else
                     (if alpha = AMINO
                      then bind (index_of AMINO_INDICES ch) (\<lambda>i. add_at cs i weight)
                      else bind (index_of DNA_INDICES ch) (\<lambda>i. add_at cs i weight)))
                  (\<lambda>cs'. Inr (cs', fadd total_weight weight)))))"

definition fractional_weighted_counts ::
  "Alphabet \<Rightarrow> Sequence list \<Rightarrow> pyfloat list \<Rightarrow> int \<Rightarrow> error + pyfloat list" where
  "fractional_weighted_counts alpha seqs ws col_index =
     bind (fold_err (count_residue alpha col_index) (zip seqs ws)
             (replicate (get_size alpha) (Finite 0), Finite 0))
       (\<lambda>(cs, total_weight).
          if total_weight \<noteq> Finite 0 then
            (if \<not> fle total_weight (fl 1.001) then Inl AssertionError
             else Inr (map (\<lambda>x. fquot x total_weight) cs))
          else Inr cs)"

text \<open>The method \<^verbatim>\<open>get_fractional_weighted_counts\<close> reads the weights through
  \<^verbatim>\<open>self.get_weights()\<close>, which builds and memoises them when they are missing.\<close>

definition get_fractional_weighted_counts ::
  "constants \<Rightarrow> platform \<Rightarrow> nat \<Rightarrow> Alignment \<Rightarrow> int \<Rightarrow> error + (pyfloat list \<times> Alignment)" where
  "get_fractional_weighted_counts c pf limit a col_index =
     bind (ensure_weights c pf limit a) (\<lambda>(ws, a').
       bind (fractional_weighted_counts (alphabet a') (sequences a') ws col_index) (\<lambda>cs.
         Inr (cs, a')))"

text \<open>
  \<^verbatim>\<open>get_indices_by_decreasing_value\<close> sorts the indices by the keys \<open>(value, - index)\<close> in
  descending order.  The keys are distinct, so this is the reverse of the ascending
  order.  With a NaN among the values the comparisons are not an order, and what
  Python's sort returns then is not modelled.
\<close>

definition float_key :: "pyfloat \<Rightarrow> int \<times> real" where
  "float_key a = (case a of NegInf \<Rightarrow> (- 1, 0) | Finite x \<Rightarrow> (0, x) | PosInf \<Rightarrow> (1, 0) | NaN \<Rightarrow> (2, 0))"

definition get_indices_by_decreasing_value :: "pyfloat list \<Rightarrow> error + int list" where
  "get_indices_by_decreasing_value vals =
     (if NaN \<in> set vals then Inl Unmodelled
      else Inr (rev (sort_key (\<lambda>i. (float_key (vals ! nat i), - i)) (map int [0..<length vals]))))"

definition score_row :: "pyfloat list list \<Rightarrow> pyfloat list \<Rightarrow> int \<Rightarrow> error + pyfloat" where
  "score_row score_matrix cs i =
     bind (py_index score_matrix i) (\<lambda>row.
       Inr (fold (\<lambda>(cnt, matrix_value) score. fadd score (fmul cnt matrix_value)) (zip cs row)
              (Finite 0)))"

text \<open>One round of the generator \<^verbatim>\<open>_build_positions\<close>, with the memoised weights.\<close>

definition build_position ::
  "constants \<Rightarrow> Alphabet \<Rightarrow> nat \<Rightarrow> Sequence list \<Rightarrow> pyfloat list \<Rightarrow> int \<Rightarrow> error + AlignmentPosition" where
  "build_position c alpha cc seqs ws column =
     (let score_matrix = (if alpha = AMINO then AMINO_SCORE_MATRIX c else OTHER_SCORE_MATRIX c) in
      bind (fractional_weighted_counts alpha seqs ws column) (\<lambda>cs.
      bind (get_indices_by_decreasing_value cs) (\<lambda>order.
      bind (map_err (score_row score_matrix cs) (map int [0..<get_size alpha])) (\<lambda>scs.
      bind (get_column_ungapped_weight seqs ws column) (\<lambda>gapped.
      bind (get_gap_open_weight_total seqs ws column) (\<lambda>opened.
      bind (get_gap_close_weight_total cc seqs ws column) (\<lambda>closed.
        Inr (AlignmentPosition_init c order cs scs
               (fsub (Finite 1) gapped) (fsub (Finite 1) opened) (fsub (Finite 1) closed)))))))))"

definition build_positions ::
  "constants \<Rightarrow> platform \<Rightarrow> nat \<Rightarrow> Alignment \<Rightarrow> error + (AlignmentPosition list \<times> Alignment)" where
  "build_positions c pf limit a =
     (if col_count a = 0 then Inr ([], a)
      else bind (ensure_weights c pf limit a) (\<lambda>(ws, a').
        bind (map_err (build_position c (alphabet a') (col_count a') (sequences a') ws)
                (map int [0..<col_count a'])) (\<lambda>ps. Inr (ps, a'))))"

text \<open>The property \<^verbatim>\<open>positions\<close>.\<close>

definition positions ::
  "constants \<Rightarrow> platform \<Rightarrow> nat \<Rightarrow> Alignment \<Rightarrow> error + (AlignmentPosition list \<times> Alignment)" where
  "positions c pf limit a =
     (case cached_positions a of
        Some ps \<Rightarrow> Inr (ps, a)
      | None \<Rightarrow> bind (build_positions c pf limit a) (\<lambda>(ps, a').
                  Inr (ps, a'\<lparr>cached_positions := Some ps\<rparr>)))"


section \<open>alignment.py: the cache file\<close>

text \<open>
  The values that the module \<^verbatim>\<open>json\<close> reads and writes.  An object is the list of the
  items of a Python dictionary, in insertion order, so its keys are distinct.
\<close>

datatype json =
    JNull
  | JBool bool
  | JInt int
  | JFloat pyfloat
  | JString string
  | JArray "json list"
  | JObject "(string \<times> json) list"

text \<open>What \<^verbatim>\<open>json.load(handle)\<close> gives: \<^verbatim>\<open>JSONDecodeError\<close> for a body that is not
  JSON, or the value that the body denotes.\<close>

datatype load_result = DecodeError | Loaded json

text \<open>\<^verbatim>\<open>data[key]\<close> with a string key, \<^verbatim>\<open>for x in data\<close>, and \<^verbatim>\<open>not data\<close>.\<close>

definition json_getitem :: "json \<Rightarrow> string \<Rightarrow> error + json" where
  "json_getitem data key =
     (case data of
        JObject items \<Rightarrow> (case map_of items key of None \<Rightarrow> Inl KeyError | Some v \<Rightarrow> Inr v)
      | _ \<Rightarrow> Inl TypeError)"

definition json_iter :: "json \<Rightarrow> error + json list" where
  "json_iter data =
     (case data of
        JArray xs \<Rightarrow> Inr xs
      | JObject items \<Rightarrow> Inr (map (\<lambda>(k, v). JString k) items)
      | JString s \<Rightarrow> Inr (map (\<lambda>ch. JString [ch]) s)
      | _ \<Rightarrow> Inl TypeError)"

definition json_truthy :: "json \<Rightarrow> bool" where
  "json_truthy data =
     (case data of
        JNull \<Rightarrow> False
      | JBool b \<Rightarrow> b
      | JInt i \<Rightarrow> i \<noteq> 0
      | JFloat r \<Rightarrow> r \<noteq> Finite 0
      | JString s \<Rightarrow> s \<noteq> []
      | JArray xs \<Rightarrow> xs \<noteq> []
      | JObject items \<Rightarrow> items \<noteq> [])"

text \<open>
  The fields of a position and the weights are typed here, as the annotations of the
  source say.  A loaded value of another shape is TypeError at the load; the source would
  store it as it is and fail where it is first used.
\<close>

definition json_number :: "json \<Rightarrow> error + pyfloat" where
  "json_number data =
     (case data of
        JFloat r \<Rightarrow> Inr r
      | JInt i \<Rightarrow> float_of_int i
      | JBool b \<Rightarrow> Inr (Finite (if b then 1 else 0))
      | _ \<Rightarrow> Inl TypeError)"

definition json_integer :: "json \<Rightarrow> error + int" where
  "json_integer data =
     (case data of
        JInt i \<Rightarrow> Inr i
      | JBool b \<Rightarrow> Inr (if b then 1 else 0)
      | _ \<Rightarrow> Inl TypeError)"

definition json_list :: "(json \<Rightarrow> error + 'a) \<Rightarrow> json \<Rightarrow> error + 'a list" where
  "json_list f data = (case data of JArray xs \<Rightarrow> map_err f xs | _ \<Rightarrow> Inl TypeError)"

text \<open>\<^verbatim>\<open>AlignmentPosition.to_json\<close>: the dictionary of the fields of the object.\<close>

definition to_json :: "AlignmentPosition \<Rightarrow> json" where
  "to_json p =
     JObject [(''sort_order'', JArray (map JInt (sort_order p))),
              (''base_counts'', JArray (map JFloat (base_counts p))),
              (''scores'', JArray (map JFloat (scores p))),
              (''ungapped_weight'', JFloat (ungapped_weight p)),
              (''gap_opens'', JFloat (gap_opens p)),
              (''gap_closes'', JFloat (gap_closes p)),
              (''score_gap_open'', JFloat (score_gap_open p)),
              (''score_gap_close'', JFloat (score_gap_close p))]"

text \<open>
  \<^verbatim>\<open>AlignmentPosition.from_json\<close> is \<^verbatim>\<open>cls(**data)\<close>: a key that is not a field, or a
  missing field without a default, is TypeError.  The two score fields have defaults and
  \<^verbatim>\<open>__post_init__\<close> overwrites whatever was passed for them.
\<close>

definition position_fields :: "string list" where
  "position_fields =
     [''sort_order'', ''base_counts'', ''scores'', ''ungapped_weight'', ''gap_opens'',
      ''gap_closes'', ''score_gap_open'', ''score_gap_close'']"

definition keyword :: "(string \<times> json) list \<Rightarrow> string \<Rightarrow> error + json" where
  "keyword items key = (case map_of items key of None \<Rightarrow> Inl TypeError | Some v \<Rightarrow> Inr v)"

definition from_json :: "constants \<Rightarrow> json \<Rightarrow> error + AlignmentPosition" where
  "from_json c data =
     (case data of
        JObject items \<Rightarrow>
          if \<not> list_all (\<lambda>(k, v). k \<in> set position_fields) items then Inl TypeError
          else
            bind (bind (keyword items ''sort_order'') (json_list json_integer)) (\<lambda>so.
            bind (bind (keyword items ''base_counts'') (json_list json_number)) (\<lambda>bc.
            bind (bind (keyword items ''scores'') (json_list json_number)) (\<lambda>sc.
            bind (bind (keyword items ''ungapped_weight'') json_number) (\<lambda>uw.
            bind (bind (keyword items ''gap_opens'') json_number) (\<lambda>go.
            bind (bind (keyword items ''gap_closes'') json_number) (\<lambda>gc.
              Inr (AlignmentPosition_init c so bc sc uw go gc)))))))
      | _ \<Rightarrow> Inl TypeError)"

text \<open>\<^verbatim>\<open>str(self.alphabet)\<close>\<close>

definition Alphabet_str :: "Alphabet \<Rightarrow> string" where
  "Alphabet_str a = (case a of AMINO \<Rightarrow> ''AMINO'' | DNA \<Rightarrow> ''DNA'' | RNA \<Rightarrow> ''RNA'')"

text \<open>
  \<^verbatim>\<open>to_cache_file\<close>: the value handed to \<^verbatim>\<open>json.dump\<close>, and the alignment with what
  reading \<^verbatim>\<open>self.positions\<close> has memoised.  The library functions \<^verbatim>\<open>json.dump\<close> and
  \<^verbatim>\<open>json.load\<close> are not modelled: loading the written file gives the written value
  (a float is written by \<^verbatim>\<open>repr\<close>, which reads back as the same float; the infinities
  and NaN are written as \<^verbatim>\<open>Infinity\<close>, \<^verbatim>\<open>-Infinity\<close> and \<^verbatim>\<open>NaN\<close> and read back).
\<close>

definition cache_data :: "constants \<Rightarrow> Alignment \<Rightarrow> pyfloat list \<Rightarrow> AlignmentPosition list \<Rightarrow> json" where
  "cache_data c a ws ps =
     JObject [(''alphabet'', JString (Alphabet_str (alphabet a))),
              (''sequences'', JObject (zip (names a) (map (\<lambda>s. JString (seq_str s)) (sequences a)))),
              (''weights'', JArray (map JFloat ws)),
              (''positions'', JArray (map to_json ps)),
              (''version'', JString (VERSION c))]"

definition to_cache_file ::
  "constants \<Rightarrow> platform \<Rightarrow> nat \<Rightarrow> Alignment \<Rightarrow> error + (json \<times> Alignment)" where
  "to_cache_file c pf limit a =
     bind (positions c pf limit a) (\<lambda>(ps, a').
       if \<not> truthy (cached_weights a') then Inl AssertionError
       else Inr (cache_data c a' (the (cached_weights a')) ps, a'))"

text \<open>The call \<^verbatim>\<open>cls(data["sequences"], weights=data["weights"], positions=positions)\<close>
  of the constructor on loaded values.\<close>

definition Alignment_of_json :: "json \<Rightarrow> json \<Rightarrow> AlignmentPosition list \<Rightarrow> error + Alignment" where
  "Alignment_of_json sj wj ps =
     (if \<not> json_truthy sj then Inl ValueError
      else
        (case sj of
           JObject items \<Rightarrow>
             bind (map_err (\<lambda>(k, v). case v of JString s \<Rightarrow> Inr (k, s) | _ \<Rightarrow> Inl TypeError) items)
               (\<lambda>sbn.
                  bind (case wj of JNull \<Rightarrow> Inr None
                        | _ \<Rightarrow> bind (json_list json_number wj) (\<lambda>ws. Inr (Some ws)))
                    (\<lambda>w. Alignment_init sbn None w (Some ps)))
         | _ \<Rightarrow> Inl AttributeError))"

definition from_cache_file :: "constants \<Rightarrow> load_result \<Rightarrow> error + Alignment" where
  "from_cache_file c loaded =
     (case loaded of
        DecodeError \<Rightarrow> Inl InvalidCacheFormatError
      | Loaded data \<Rightarrow>
          bind (json_getitem data ''version'') (\<lambda>v.
            if v \<noteq> JString (VERSION c) then Inl MismatchedCacheVersionError
            else
              bind (json_getitem data ''positions'') (\<lambda>pj.
              bind (json_iter pj) (\<lambda>entries.
              bind (map_err (from_json c) entries) (\<lambda>ps.
              bind (json_getitem data ''sequences'') (\<lambda>sj.
              bind (json_getitem data ''weights'') (\<lambda>wj.
                Alignment_of_json sj wj ps)))))))"

text \<open>The number of edges of one type, and what an edge of a type consumes.\<close>

definition count_edges :: "Modification \<Rightarrow> Edge list \<Rightarrow> nat" where
  "count_edges m es = length (filter (\<lambda>e. edge_type e = m) es)"

definition consumes_query :: "Modification \<Rightarrow> int" where
  "consumes_query m = (if m = INSERTION then 0 else 1)"

definition consumes_reference :: "Modification \<Rightarrow> int" where
  "consumes_reference m = (if m = DELETION then 0 else 1)"



section \<open>Example inputs\<close>

text \<open>
  Values of the constants for the examples.  \<open>GAP_OPEN = -2.9\<close> is the value the tests
  of the repository pin (\<^verbatim>\<open>score_gap_open == -1.45\<close> for a position without gaps); the
  other values are placeholders chosen for the examples only, and no theorem about all
  inputs depends on them.
\<close>

definition example_constants :: constants where
  "example_constants = \<lparr>GAP_OPEN = fl (- 2.9), GAP_EXTEND = Finite 0, SCORE_CENTER = Finite 0,
     SCORE_GUARD = fl (- (10 ^ 37)),
     AMINO_SCORE_MATRIX = replicate 20 (replicate 20 (Finite 1)),
     OTHER_SCORE_MATRIX = replicate 4 (replicate 4 (Finite 1)),
     ID_GUARD = - 1, LENGTH_GUARD = fl (10 ^ 29), VERSION = ''1''\<rparr>"

text \<open>A platform for the examples: the logarithm and the power are rounded correctly,
  and the sum adds from left to right.\<close>

definition example_platform :: platform where
  "example_platform =
     \<lparr>math_log = (\<lambda>x. fl (ln x)),
      float_pow = (\<lambda>x y. case fl (x powr y) of Finite v \<Rightarrow> Inr (Finite v) | _ \<Rightarrow> Inl OverflowError),
      float_sum = (\<lambda>vs. foldl fadd (Finite 0) vs)\<rparr>"

text \<open>The tree of \<^verbatim>\<open>test/test_tree.py\<close>, with \<open>-1\<close> for the absent indices.\<close>

definition test_tree :: Tree where
  "test_tree = \<lparr>node_count = 7, parents = [4, 6, 4, 5, 5, 6, -1],
     lefts = [-1, -1, -1, -1, 0, 3, 1], rights = [-1, -1, -1, -1, 2, 4, 5],
     left_lengths = map Finite [2, 4, 6, 8, 10, 12, 14],
     right_lengths = map Finite [1, 3, 5, 7, 9, 11, 13],
     parent_lengths = map Finite [50, 60, 70, 80, 90, 100, 110],
     leaf_names = [''A'', ''B'', ''C'', ''D''], root_node_index = 6, leaf_count = 4\<rparr>"

text \<open>Two columns of a DNA profile, as the constructor of the dataclass builds them.\<close>

definition dna_G :: AlignmentPosition where
  "dna_G = AlignmentPosition_init example_constants [0, 1, 2, 3]
             (map Finite [1, 0, 0, 0]) (map Finite [2, 0, 0, 0]) (Finite 1) (Finite 1) (Finite 1)"

definition dna_C :: AlignmentPosition where
  "dna_C = AlignmentPosition_init example_constants [1, 0, 2, 3]
             (map Finite [0, 1, 0, 0]) (map Finite [0, 2, 0, 0]) (Finite 1) (Finite 1) (Finite 1)"

text \<open>The alignment of \<^verbatim>\<open>test_fractional_weighted_counts\<close>, after the constructor, with the
  weights \<^verbatim>\<open>[0.2, 0.8]\<close> that the test assigns.\<close>

definition example_counts_alignment :: Alignment where
  "example_counts_alignment =
     \<lparr>col_count = 3, alphabet = AMINO,
      sequence_by_name =
        [(''A'', [Some CHR ''B'', Some CHR ''A'', None]),
         (''B'', [Some CHR ''A'', Some CHR ''Z'', Some CHR ''X''])],
      cached_tree = None, cached_weights = Some [fl 0.2, fl 0.8], cached_positions = None\<rparr>"





section \<open>Evaluation of the rounding\<close>

text \<open>The evaluation of the rounding on a number that is given by numerals, and the
  constants of the examples as doubles.\<close>

lemmas fl_eval =
  fl_def fl_scaled_def fl_pack_def ilog2_def pow2_def round_even_def round_at_def bit_len.simps

lemma fl_gap_open: "fl (- 2.9) = Finite (- (6530219459687219 / 2251799813685248))"
  by (simp add: fl_eval)

lemma fl_score_guard: "fl (- (10 ^ 37)) = Finite (- 9999999999999999538762658202121142272)"
  by (simp add: fl_eval)

lemma fl_length_guard: "fl (10 ^ 29) = Finite 99999999999999991433150857216"
  by (simp add: fl_eval)

lemma replicate_numeral: "replicate (numeral k) x = x # replicate (pred_numeral k) x"
  by (simp add: numeral_eq_Suc)

lemma bind_eq_Inr: "bind m f = Inr y \<longleftrightarrow> (\<exists>x. m = Inr x \<and> f x = Inr y)"
  by (cases m) (simp_all add: bind_def)

lemmas eval_defs =
  fill_matrix_def set_terminal_gaps_def dna_G_def dna_C_def AlignmentPosition_init_def
  example_constants_def Let_def bind_def compare_profile_positions_def py_index_def norm_index_def
  set_bit_tbm_def set_cell_def cell_def init_column_def mid_row_def recurse_d_def recurse_i_def
  recurse_m_def upt_rec BIT_MM_def BIT_DM_def BIT_IM_def BIT__M_def BIT_DD_def BIT_MD_def
  BIT__D_def BIT_II_def BIT_MI_def BIT__I_def
  fl_gap_open fl_score_guard fl_length_guard fsub_def fne_def feq_def fgt_def fge_def fle_def
  index_float_def fl_eval






lemma set_terminal_gaps_length: "length (set_terminal_gaps c ps) = length ps"
  by (simp add: set_terminal_gaps_def Let_def)

section \<open>Properties of the alphabet operations\<close>

lemma from_string_RNA_raises:
  "\<exists>ch \<in> set line. \<not> is_gap_char [ch] \<Longrightarrow> from_string line RNA = Inl NotImplementedError"
proof (induction line)
  case Nil
  then show ?case by simp
next
  case (Cons a line)
  show ?case
  proof (cases "is_gap_char [a]")
    case True
    with Cons.prems have "\<exists>ch \<in> set line. \<not> is_gap_char [ch]" by auto
    then have "from_string line RNA = Inl NotImplementedError" by (rule Cons.IH)
    with True show ?thesis
      by (simp add: from_string_def from_string_char_def)
  next
    case False
    then show ?thesis
      by (simp add: from_string_def from_string_char_def is_residue_def bind_def)
  qed
qed

text \<open>
  C10: for every character string \<open>c\<close> that is neither \<^verbatim>\<open>None\<close> nor empty,
  \<^verbatim>\<open>is_residue(c, Alphabet.RNA)\<close> and \<^verbatim>\<open>is_wildcard(c, Alphabet.RNA)\<close> raise
  NotImplementedError instead of returning a boolean; hence ingesting with the RNA
  alphabet any line that holds a non-gap character raises NotImplementedError too.
\<close>

theorem rna_classification_raises:
  "c \<noteq> [] \<Longrightarrow>
     is_residue (Some c) RNA = Inl NotImplementedError
   \<and> is_wildcard (Some c) RNA = Inl NotImplementedError
   \<and> ((\<exists>ch \<in> set c. \<not> is_gap_char [ch]) \<longrightarrow> from_string c RNA = Inl NotImplementedError)"
  using from_string_RNA_raises [of c]
  by (auto simp: is_residue_def is_wildcard_def)

theorem rna_classification_raises_witness:
  "''A'' \<noteq> []
   \<and> is_residue (Some ''A'') RNA = Inl NotImplementedError
   \<and> is_wildcard (Some ''A'') RNA = Inl NotImplementedError
   \<and> from_string ''A'' RNA = Inl NotImplementedError"
  using rna_classification_raises [of "''A''"]
  by (simp add: is_gap_char_def)

section \<open>Properties of the traceback\<close>

lemma count_edges_append:
  "count_edges m (es @ [e]) = count_edges m es + (if edge_type e = m then 1 else 0)"
  by (simp add: count_edges_def)

lemma step_back_lengths:
  "query_length (step_back e) = query_length e - consumes_query (edge_type e)"
  "reference_length (step_back e) = reference_length e - consumes_reference (edge_type e)"
  by (cases "edge_type e"; simp add: step_back_def consumes_query_def consumes_reference_def)+

lemma build_path_loop_counts:
  "build_path_loop tb e acc = Inr es \<Longrightarrow>
     int (count_edges MATCH es + count_edges DELETION es)
       = int (count_edges MATCH acc + count_edges DELETION acc)
           + query_length e - consumes_query (edge_type e)
   \<and> int (count_edges MATCH es + count_edges INSERTION es)
       = int (count_edges MATCH acc + count_edges INSERTION acc)
           + reference_length e - consumes_reference (edge_type e)"
proof (induction tb e acc rule: build_path_loop.induct)
  case (1 tb edge acc)
  from "1.prems" obtain row bits next_edge_type where
    row: "py_index tb (query_length edge) = Inr row"
    and bits: "py_index row (reference_length edge) = Inr bits"
    and nxt: "get_modification bits (edge_type edge) = Inr next_edge_type"
    by (subst (asm) build_path_loop.simps) (auto split: sum.splits)
  let ?stepped = "step_back edge"
  let ?e' = "?stepped\<lparr>edge_type := next_edge_type\<rparr>"
  show ?case
  proof (cases "query_length ?stepped = 0 \<and> reference_length ?stepped = 0")
    case True
    with "1.prems" row bits nxt have "es = acc"
      by (subst (asm) build_path_loop.simps) (simp add: Let_def)
    with True show ?thesis by (simp add: step_back_lengths)
  next
    case False
    with "1.prems" row bits nxt have nonneg: "\<not> (query_length ?e' < 0 \<or> reference_length ?e' < 0)"
      and rec: "build_path_loop tb ?e' (acc @ [?e']) = Inr es"
      by (subst (asm) build_path_loop.simps; simp add: Let_def split: if_splits)+
    from "1.IH" [OF row bits nxt refl False refl nonneg rec]
    show ?thesis
      by (cases next_edge_type)
         (simp_all add: count_edges_append step_back_lengths consumes_query_def consumes_reference_def)
  qed
qed

lemma build_path_counts:
  assumes "build_path tb q r last_edge = Inr path"
  shows "int (count_edges MATCH (edges path) + count_edges DELETION (edges path)) = q
       \<and> int (count_edges MATCH (edges path) + count_edges INSERTION (edges path)) = r"
proof -
  let ?e = "\<lparr>edge_type = last_edge, query_length = q, reference_length = r\<rparr>"
  from assms obtain es where es: "build_path_loop tb ?e [?e] = Inr es" and p: "path = \<lparr>edges = rev es\<rparr>"
    by (auto simp: build_path_def Let_def bind_def split: if_splits sum.splits)
  have rev: "\<And>m. count_edges m (rev es) = count_edges m es"
    by (simp add: count_edges_def flip: rev_filter)
  have init: "\<And>m e. count_edges m [e] = (if edge_type e = m then 1 else 0)"
    by (simp add: count_edges_def)
  from build_path_loop_counts [OF es] show ?thesis
    unfolding p by (cases last_edge) (simp_all add: rev init consumes_query_def consumes_reference_def)
qed




text \<open>
  C4: for every path that \<^verbatim>\<open>global_align\<close> returns for a query profile of length
  \<open>Q \<ge> 1\<close> and a reference profile of length \<open>R \<ge> 1\<close>, the number of M edges plus the
  number of D edges is \<open>Q\<close>, and the number of M edges plus the number of I edges is \<open>R\<close>.
\<close>

theorem global_align_path_counts:
  assumes "global_align c pf query_positions reference_positions alpha = Inr (path, qp', rp')"
    and "1 \<le> length query_positions" and "1 \<le> length reference_positions"
  shows "count_edges MATCH (edges path) + count_edges DELETION (edges path) = length query_positions
       \<and> count_edges MATCH (edges path) + count_edges INSERTION (edges path) = length reference_positions"
proof -
  from assms(1) obtain tb last_edge where
    "build_path tb (int (length query_positions)) (int (length reference_positions)) last_edge = Inr path"
    by (auto simp: global_align_def Let_def bind_eq_Inr set_terminal_gaps_length split: if_splits)
  from build_path_counts [OF this] show ?thesis by linarith
qed

lemma example_fill_matrix:
  "fill_matrix example_constants example_platform (set_terminal_gaps example_constants [dna_G, dna_C])
     (set_terminal_gaps example_constants [dna_G, dna_G, dna_C]) DNA
   = Inr ([[0, 0, 0, 0], [0, 12, 14, 6], [0, 13, 12, 12]], MATCH)"
  by (simp add: eval_defs)

lemma example_build_path:
  "build_path [[0, 0, 0, 0], [0, 12, 14, 6], [0, 13, 12, 12]] 2 3 MATCH
   = Inr \<lparr>edges = [\<lparr>edge_type = INSERTION, query_length = 0, reference_length = 1\<rparr>,
                     \<lparr>edge_type = MATCH, query_length = 1, reference_length = 2\<rparr>,
                     \<lparr>edge_type = MATCH, query_length = 2, reference_length = 3\<rparr>]\<rparr>"
  by (simp add: build_path_def build_path_loop.simps get_modification_def step_back_def
        py_index_def norm_index_def bind_def Let_def BIT_MM_def BIT_DM_def BIT_IM_def BIT__M_def
        BIT_DD_def BIT_MD_def BIT__D_def BIT_II_def BIT_MI_def BIT__I_def)

lemma example_global_align:
  "global_align example_constants example_platform [dna_G, dna_C] [dna_G, dna_G, dna_C] DNA
   = Inr (\<lparr>edges = [\<lparr>edge_type = INSERTION, query_length = 0, reference_length = 1\<rparr>,
                     \<lparr>edge_type = MATCH, query_length = 1, reference_length = 2\<rparr>,
                     \<lparr>edge_type = MATCH, query_length = 2, reference_length = 3\<rparr>]\<rparr>,
          set_terminal_gaps example_constants [dna_G, dna_C],
          set_terminal_gaps example_constants [dna_G, dna_G, dna_C])"
proof -
  have len: "length (set_terminal_gaps example_constants [dna_G, dna_C]) = 2"
    "length (set_terminal_gaps example_constants [dna_G, dna_G, dna_C]) = 3"
    by (simp_all add: set_terminal_gaps_def Let_def)
  show ?thesis
    unfolding global_align_def Let_def len example_fill_matrix
    by (simp add: bind_def example_build_path)
qed

theorem global_align_path_counts_witness:
  "1 \<le> length [dna_G, dna_C] \<and> 1 \<le> length [dna_G, dna_G, dna_C]
 \<and> global_align example_constants example_platform [dna_G, dna_C] [dna_G, dna_G, dna_C] DNA
   = Inr (\<lparr>edges = [\<lparr>edge_type = INSERTION, query_length = 0, reference_length = 1\<rparr>,
                     \<lparr>edge_type = MATCH, query_length = 1, reference_length = 2\<rparr>,
                     \<lparr>edge_type = MATCH, query_length = 2, reference_length = 3\<rparr>]\<rparr>,
          set_terminal_gaps example_constants [dna_G, dna_C],
          set_terminal_gaps example_constants [dna_G, dna_G, dna_C])
 \<and> count_edges MATCH [\<lparr>edge_type = INSERTION, query_length = 0, reference_length = 1\<rparr>,
                     \<lparr>edge_type = MATCH, query_length = 1, reference_length = 2\<rparr>,
                     \<lparr>edge_type = MATCH, query_length = 2, reference_length = 3\<rparr>] = 2
 \<and> count_edges INSERTION [\<lparr>edge_type = INSERTION, query_length = 0, reference_length = 1\<rparr>,
                     \<lparr>edge_type = MATCH, query_length = 1, reference_length = 2\<rparr>,
                     \<lparr>edge_type = MATCH, query_length = 2, reference_length = 3\<rparr>] = 1"
  using global_align_path_counts [OF example_global_align]
  by (simp add: example_global_align count_edges_def)

section \<open>Properties of the weighted counts\<close>

lemmas count_defs =
  get_fractional_weighted_counts_def ensure_weights_def fractional_weighted_counts_def
  count_residue_def example_counts_alignment_def sequences_def is_wildcard_def bind_def
  get_size_def index_of_def add_at_def py_index_def py_set_def norm_index_def
  AMINO_INDICES_def replicate_numeral upt_rec fle_def feq_def fl_eval

lemma example_counts_column_0:
  "get_fractional_weighted_counts c pf limit example_counts_alignment 0
     = Inr ((replicate 20 (Finite 0))
              [0 := Finite (3602879701896397 / 4503599627370496),
               2 := Finite (3602879701896397 / 36028797018963968),
               11 := Finite (3602879701896397 / 36028797018963968)], example_counts_alignment)"
  by (simp add: count_defs)

lemma example_counts_column_1:
  "get_fractional_weighted_counts c pf limit example_counts_alignment 1
     = Inr ((replicate 20 (Finite 0))
              [0 := Finite (3602879701896397 / 18014398509481984),
               3 := Finite (3602879701896397 / 9007199254740992),
               13 := Finite (3602879701896397 / 9007199254740992)], example_counts_alignment)"
  by (simp add: count_defs)

lemma example_counts_column_2:
  "get_fractional_weighted_counts c pf limit example_counts_alignment 2
     = Inr (replicate 20 (Finite (7205759403792793 / 144115188075855872)),
            example_counts_alignment)"
  by (simp add: count_defs)

lemma example_counts_init:
  "Alignment_init [(''A'', ''BA-''), (''B'', ''AZX'')] None None None
     = Inr (example_counts_alignment\<lparr>cached_weights := None\<rparr>)"
  by (simp add: example_counts_alignment_def Alignment_init_def Let_def from_string_def
        from_string_char_def is_gap_char_def is_residue_def is_wildcard_def bind_def truthy_def)

text \<open>
  C5, as the program computes it: on the amino alignment \<open>{A: "BA-", B: "AZX"}\<close> with the
  sequence weights \<open>[0.2, 0.8]\<close>, \<^verbatim>\<open>get_fractional_weighted_counts\<close> returns for column 0
  the counts A = 0.8, D = 0.1, N = 0.1 (indices 0, 2 and 11) and 0 elsewhere, and for
  column 1 the counts A = 0.2, E = 0.4, Q = 0.4 (indices 0, 3 and 13) and 0 elsewhere,
  where each decimal number stands for the double nearest to it.  For column 2 it returns
  the same double in each of the 20 entries; this double is
  \<open>7205759403792793 / 2\<^sup>5\<^sup>7 = 0.049999999999999996\<close>, the double next below the double
  \<open>0.05\<close>, so the entries are \<open>0.05\<close> within \<open>10\<^sup>-\<^sup>9\<close> and not exactly.  The alignment is the
  one that the constructor builds from the two strings, with the weights assigned.
\<close>

theorem fractional_weighted_counts_example:
  "Alignment_init [(''A'', ''BA-''), (''B'', ''AZX'')] None None None
     = Inr (example_counts_alignment\<lparr>cached_weights := None\<rparr>)
 \<and> get_fractional_weighted_counts c pf limit example_counts_alignment 0
     = Inr ((replicate 20 (Finite 0))[0 := fl 0.8, 2 := fl 0.1, 11 := fl 0.1],
            example_counts_alignment)
 \<and> get_fractional_weighted_counts c pf limit example_counts_alignment 1
     = Inr ((replicate 20 (Finite 0))[0 := fl 0.2, 3 := fl 0.4, 13 := fl 0.4],
            example_counts_alignment)
 \<and> get_fractional_weighted_counts c pf limit example_counts_alignment 2
     = Inr (replicate 20 (Finite (7205759403792793 / 2 ^ 57)), example_counts_alignment)
 \<and> \<bar>7205759403792793 / 2 ^ 57 - 5 / 100\<bar> \<le> (1 / 10 ^ 9 :: real)"
  by (simp add: example_counts_init example_counts_column_0 example_counts_column_1
        example_counts_column_2 fl_eval)

text \<open>
  C5, as the specification states it, fails for column 2: the entries that the program
  returns are not the double \<open>0.05 = 7205759403792794 / 2\<^sup>5\<^sup>7\<close> (the sum \<open>0.0 + 0.8 / 20\<close>
  is divided by \<open>0.8\<close>, and both quotients are rounded).
\<close>

theorem fractional_weighted_counts_inexact:
  "get_fractional_weighted_counts example_constants example_platform 1000
       example_counts_alignment 2
     = Inr (replicate 20 (Finite (7205759403792793 / 2 ^ 57)), example_counts_alignment)
 \<and> fl 0.05 = Finite (7205759403792794 / 2 ^ 57)
 \<and> Finite (7205759403792793 / 2 ^ 57) \<noteq> fl 0.05"
  by (simp add: example_counts_column_2 fl_eval)

section \<open>Properties of the cache loader\<close>

lemma from_cache_file_not_json: "from_cache_file c DecodeError = Inl InvalidCacheFormatError"
  by (simp add: from_cache_file_def)

lemma from_cache_file_version_mismatch:
  assumes "json_getitem data ''version'' = Inr v" and "v \<noteq> JString (VERSION c)"
  shows "from_cache_file c (Loaded data) = Inl MismatchedCacheVersionError"
  using assms by (simp add: from_cache_file_def bind_def)

lemma from_cache_file_missing_version:
  assumes "map_of entries ''version'' = None"
  shows "from_cache_file c (Loaded (JObject entries)) = Inl KeyError"
  using assms by (simp add: from_cache_file_def json_getitem_def bind_def)

text \<open>
  C3: a body that is not JSON raises the invalid-cache-format error, and a version key
  that differs from the current version raises the mismatched-cache-version error.  A
  JSON object that lacks a required key does not raise the invalid-cache-format error:
  the empty object and the object that holds only the current version both raise
  KeyError, which is not a ValueError and so is not caught by the caller that falls back
  to FASTA parsing.
\<close>

theorem from_cache_file_errors:
  "from_cache_file c DecodeError = Inl InvalidCacheFormatError
 \<and> from_cache_file c (Loaded (JObject [(''version'', JString (CHR ''x'' # VERSION c))]))
     = Inl MismatchedCacheVersionError
 \<and> from_cache_file c (Loaded (JObject [])) = Inl KeyError
 \<and> from_cache_file c (Loaded (JObject [(''version'', JString (VERSION c))])) = Inl KeyError"
  by (simp add: from_cache_file_def json_getitem_def bind_def)

section \<open>Properties of the memoised profiles\<close>











end
